theory Spec2Isabelle
  imports Complex_Main
begin

section \<open>Data model\<close>

text \<open>
  The development embeds \<^verbatim>\<open>torch/csrc/distributed/rpc/torchscript_functions.cpp\<close>:
  the two entry points \<^verbatim>\<open>rpcTorchscript\<close> (the plain call) and
  \<^verbatim>\<open>remoteTorchscript\<close> (the reference call). Both are sequences of calls into
  collaborators (the RPC agent, the transport, the futures, the RRef context, the
  profiler). The process is a record \<open>world\<close>; every call takes the world and returns
  the new one, an exception is the left summand of the result, and every collaborator
  call appends an event to the world's trace, so that the order of the calls can be read
  off the result.
\<close>

type_synonym worker_id = nat
type_synonym fut_ptr = nat
type_synonym rref_ptr = nat
type_synonym rref_id = nat
type_synonym fork_id = nat
type_synonym type_ptr = string
type_synonym qualified_name = string
type_synonym data_ptr = nat

text \<open>\<^verbatim>\<open>WorkerInfo\<close>, with its fields \<^verbatim>\<open>name_\<close> and \<^verbatim>\<open>id_\<close>.\<close>

datatype worker_info = WorkerInfo (workerName: string) (workerId: worker_id)

datatype ivalue = IVNone | IVInt int | IVBool bool | IVString string

datatype argument = Argument (argName: string) (argType: type_ptr)

datatype function_schema =
  FunctionSchema (schemaName: string) (arguments: "argument list") (returns: "argument list")

text \<open>The call descriptors, with the fields their constructors are given in the source.\<close>

datatype script_call = ScriptCall qualified_name "ivalue list" bool

datatype script_remote_call =
  ScriptRemoteCall qualified_name "ivalue list" rref_id fork_id bool

text \<open>
  \<^verbatim>\<open>toMessage()\<close> is serialisation, which belongs to the transport: a request message
  is the descriptor in its envelope, a response message an opaque payload.
\<close>

datatype message =
    ScriptCallMessage script_call
  | ScriptRemoteCallMessage script_remote_call
  | ResponseMessage "nat list"

datatype error =
    UnknownWorker string
  | SchemaMismatch nat
  | TransportFailure string
  | DecodeError
  | AlreadySettled
  | FutureNotCompleted
  | NullPointerDereference
  | InvalidHandle

datatype 'v fut_state = Pending | Completed 'v "data_ptr list" | Failed error

text \<open>The dummy tensor of \<^verbatim>\<open>rpcTorchscript\<close>, which holds the record function when profiling.\<close>

datatype tensor = Zeros nat | RecordFunctionHandle nat

text \<open>
  The closures of the source, one constructor for each lambda, with its captures.
  A weak pointer is the address of the future: \<^verbatim>\<open>wp.lock()\<close> is the lookup of the
  address in the heap of futures, empty when the future is gone.
\<close>

datatype transport_callback =
    BridgeToJitFuture fut_ptr fut_ptr
  | ConfirmPendingUser fut_ptr fork_id
  | FinishCreatingOwnerRRef fut_ptr rref_id

datatype result_callback = EndCallbacks tensor fut_ptr

record transport_future =
  state :: "message fut_state"
  callbacks :: "transport_callback list"

record result_future =
  elementType :: type_ptr
  resultState :: "ivalue fut_state"
  resultCallbacks :: "result_callback list"

datatype rref =
    UserRRef (ownerId: worker_id) (rrefId: rref_id) (forkId: fork_id) (rrefType: type_ptr)
      (ownerCreationFuture: "fut_ptr option")
  | OwnerRRef (rrefId: rref_id) (rrefType: type_ptr) (ownerCreationFuture: "fut_ptr option")
      (ownerValue: "(error + ivalue) option")

datatype event =
    EvRecordFunctionEnter string
  | EvSetCurrentKey string
  | EvSend worker_info message bool real
  | EvCreateInstance type_ptr
  | EvAddCallback fut_ptr transport_callback
  | EvCallEndCallbacksOnFut tensor fut_ptr
  | EvCloseSpan tensor
  | EvCreateUserRRef worker_id type_ptr
  | EvCreateOwnerRRef type_ptr
  | EvRegisterOwnerCreationFuture rref_ptr fut_ptr
  | EvAddPendingUser fork_id rref_ptr
  | EvAddSelfAsFork rref_id
  | EvConfirmPendingUser fork_id
  | EvFinishCreatingOwnerRRef rref_id

record world =
  agentWorkerInfo :: worker_info
  knownWorkers :: "string \<rightharpoonup> worker_info"
  transportReply :: "worker_info \<Rightarrow> message \<Rightarrow> message fut_state"
  decodeResp :: "message \<rightharpoonup> ivalue"
  profilerOn :: bool
  currentKey :: "string option"
  openSpans :: "nat \<rightharpoonup> string"
  nextPtr :: nat
  transportFutures :: "fut_ptr \<rightharpoonup> transport_future"
  resultFutures :: "fut_ptr \<rightharpoonup> result_future"
  profiledFutures :: "fut_ptr \<rightharpoonup> ivalue fut_state"
  nextLocalId :: nat
  rrefs :: "rref_ptr \<rightharpoonup> rref"
  owners :: "rref_id \<rightharpoonup> rref_ptr"
  pendingUsers :: "fork_id \<rightharpoonup> rref_ptr"
  confirmedUsers :: "fork_id set"
  forks :: "rref_id \<Rightarrow> fork_id set"
  trace :: "event list"

type_synonym 'a result = "(error + 'a) \<times> world"

definition logEvent :: "event \<Rightarrow> world \<Rightarrow> world" where
  "logEvent e w = w\<lparr>trace := trace w @ [e]\<rparr>"

text \<open>The events a call has appended: the trace after it, without the trace before it.\<close>

definition emitted :: "world \<Rightarrow> world \<Rightarrow> event list" where
  "emitted w w' = drop (length (trace w)) (trace w')"

text \<open>
  \<open>happensBefore a b tr\<close>: the event \<open>b\<close> occurs in \<open>tr\<close>, and \<open>a\<close> has occurred
  when \<open>b\<close> occurs for the first time.
\<close>

definition happensBefore :: "event \<Rightarrow> event \<Rightarrow> event list \<Rightarrow> bool" where
  "happensBefore a b tr \<longleftrightarrow> b \<in> set tr \<and> a \<in> set (takeWhile (\<lambda>e. e \<noteq> b) tr)"

section \<open>Collaborators\<close>

subsection \<open>The RPC agent and the transport\<close>

text \<open>
  Modelled from the spec: \<^verbatim>\<open>RpcAgent::getWorkerInfo(name)\<close> is declared in
  \<^verbatim>\<open>rpc_agent.h\<close>. Worker resolution gives the identity of the worker or fails with
  \<open>UnknownWorker\<close>.
\<close>

definition getWorkerInfo :: "string \<Rightarrow> world \<Rightarrow> error + worker_info" where
  "getWorkerInfo n w =
     (case knownWorkers w n of None \<Rightarrow> Inl (UnknownWorker n) | Some i \<Rightarrow> Inr i)"

text \<open>
  Modelled from the spec: \<^verbatim>\<open>RRefContext::getWorkerId()\<close> is the id of the current
  worker, the identity that decides locality.
\<close>

definition getWorkerId :: "world \<Rightarrow> worker_id" where
  "getWorkerId w = workerId (agentWorkerInfo w)"

text \<open>
  Modelled from the spec: \<^verbatim>\<open>sendMessageWithAutograd\<close> hands the message to the
  transport and returns the transport future. The future is new; the state the transport
  gives it (still pending, or settled before this thread looks at it again) is the
  world's \<open>transportReply\<close>.
\<close>

definition sendMessageWithAutograd ::
  "worker_info \<Rightarrow> message \<Rightarrow> bool \<Rightarrow> real \<Rightarrow> world \<Rightarrow> fut_ptr \<times> world" where
  "sendMessageWithAutograd dst msg forceGradRecording rpcTimeoutSeconds w =
     (let p = nextPtr w
      in (p, logEvent (EvSend dst msg forceGradRecording rpcTimeoutSeconds)
               (w\<lparr>nextPtr := Suc p,
                  transportFutures := (transportFutures w)
                    (p \<mapsto> \<lparr>state = transportReply w dst msg, callbacks = []\<rparr>)\<rparr>)))"

subsection \<open>The profiler\<close>

text \<open>
  Modelled from the spec: instrumentation is optional. \<^verbatim>\<open>profilerEnabled()\<close> and
  \<^verbatim>\<open>RemoteProfilerManager::isCurrentKeySet()\<close> read the state of the profiler.
\<close>

definition profilerEnabled :: "world \<Rightarrow> bool" where
  "profilerEnabled w = profilerOn w"

definition isCurrentKeySet :: "world \<Rightarrow> bool" where
  "isCurrentKeySet w = (currentKey w \<noteq> None)"

text \<open>
  Modelled from the spec: \<^verbatim>\<open>record_function_enter\<close> opens a span for the key
  and returns its handle; \<^verbatim>\<open>setCurrentKey\<close> stores the key.
\<close>

definition record_function_enter :: "string \<Rightarrow> world \<Rightarrow> tensor \<times> world" where
  "record_function_enter key w =
     (let h = nextPtr w
      in (RecordFunctionHandle h,
          logEvent (EvRecordFunctionEnter key)
            (w\<lparr>nextPtr := Suc h, openSpans := (openSpans w)(h \<mapsto> key)\<rparr>)))"

definition setCurrentKey :: "string \<Rightarrow> world \<Rightarrow> world" where
  "setCurrentKey key w = logEvent (EvSetCurrentKey key) (w\<lparr>currentKey := Some key\<rparr>)"

text \<open>
  Modelled from the spec: closing a span ends it; the dummy tensor holds no span.
\<close>

definition closeSpan :: "tensor \<Rightarrow> world \<Rightarrow> world" where
  "closeSpan handle w =
     logEvent (EvCloseSpan handle)
       (case handle of
          RecordFunctionHandle h \<Rightarrow> w\<lparr>openSpans := (openSpans w)(h := None)\<rparr>
        | Zeros n \<Rightarrow> w)"

text \<open>\<^verbatim>\<open>fmt::format("rpc_async_jit#{}({} -> {})", ...)\<close>\<close>

definition rpcAsyncJitKeyOf :: "qualified_name \<Rightarrow> string \<Rightarrow> string \<Rightarrow> string" where
  "rpcAsyncJitKeyOf qualifiedName src dst =
     ''rpc_async_jit#'' @ qualifiedName @ ''('' @ src @ '' -> '' @ dst @ '')''"

subsection \<open>Futures\<close>

text \<open>
  Modelled from the spec: the class \<^verbatim>\<open>JitFuture\<close> is declared outside this file.
  A future is settled once, and settling it a second time fails with \<open>AlreadySettled\<close>;
  settling runs the registered callbacks, each once, in the order of registration;
  a callback registered on a settled future runs at once. An exception of a callback
  leaves the loop.

  The futures of this file are of three kinds: the transport future (of a message), the
  typed future made from it by \<^verbatim>\<open>createInstance\<close>, and the future the profiler
  wraps around the typed one. Each kind has its heap, and the callbacks of a kind only
  settle futures of the next, so that running callbacks is not recursive.
\<close>

definition settleProfiled :: "fut_ptr \<Rightarrow> ivalue fut_state \<Rightarrow> world \<Rightarrow> unit result" where
  "settleProfiled p st w =
     (case profiledFutures w p of
        None \<Rightarrow> (Inl InvalidHandle, w)
      | Some s \<Rightarrow>
          if s \<noteq> Pending then (Inl AlreadySettled, w)
          else (Inr (), w\<lparr>profiledFutures := (profiledFutures w)(p \<mapsto> st)\<rparr>))"

text \<open>
  Modelled from the spec: the callback that \<^verbatim>\<open>_call_end_callbacks_on_fut\<close>
  registers closes the span when the typed future settles, and settles the wrapped
  future with the same result.
\<close>

definition runResultCallback :: "fut_ptr \<Rightarrow> result_callback \<Rightarrow> world \<Rightarrow> unit result" where
  "runResultCallback p cb w =
     (case cb of
        EndCallbacks handle profiled \<Rightarrow>
          (case resultFutures w p of
             None \<Rightarrow> (Inl InvalidHandle, w)
           | Some r \<Rightarrow> settleProfiled profiled (resultState r) (closeSpan handle w)))"

fun runResultCallbacks :: "fut_ptr \<Rightarrow> result_callback list \<Rightarrow> world \<Rightarrow> unit result" where
  "runResultCallbacks p [] w = (Inr (), w)"
| "runResultCallbacks p (cb # cbs) w =
     (case runResultCallback p cb w of
        (Inl e, w') \<Rightarrow> (Inl e, w')
      | (Inr u, w') \<Rightarrow> runResultCallbacks p cbs w')"

definition settleResult :: "fut_ptr \<Rightarrow> ivalue fut_state \<Rightarrow> world \<Rightarrow> unit result" where
  "settleResult p st w =
     (case resultFutures w p of
        None \<Rightarrow> (Inl InvalidHandle, w)
      | Some r \<Rightarrow>
          if resultState r \<noteq> Pending then (Inl AlreadySettled, w)
          else runResultCallbacks p (resultCallbacks r)
                 (w\<lparr>resultFutures := (resultFutures w)
                      (p \<mapsto> r\<lparr>resultState := st, resultCallbacks := []\<rparr>)\<rparr>))"

definition markCompleted :: "fut_ptr \<Rightarrow> ivalue \<Rightarrow> data_ptr list \<Rightarrow> world \<Rightarrow> unit result" where
  "markCompleted p v dataPtrs w = settleResult p (Completed v dataPtrs) w"

definition setError :: "fut_ptr \<Rightarrow> error \<Rightarrow> world \<Rightarrow> unit result" where
  "setError p e w = settleResult p (Failed e) w"

definition createInstance :: "type_ptr \<Rightarrow> world \<Rightarrow> fut_ptr \<times> world" where
  "createInstance returnType w =
     (let p = nextPtr w
      in (p, logEvent (EvCreateInstance returnType)
               (w\<lparr>nextPtr := Suc p,
                  resultFutures := (resultFutures w)
                    (p \<mapsto> \<lparr>elementType = returnType, resultState = Pending,
                           resultCallbacks = []\<rparr>)\<rparr>)))"

definition addResultCallback :: "fut_ptr \<Rightarrow> result_callback \<Rightarrow> world \<Rightarrow> unit result" where
  "addResultCallback p cb w =
     (case resultFutures w p of
        None \<Rightarrow> (Inl InvalidHandle, w)
      | Some r \<Rightarrow>
          if resultState r = Pending
          then (Inr (), w\<lparr>resultFutures := (resultFutures w)
                            (p \<mapsto> r\<lparr>resultCallbacks := resultCallbacks r @ [cb]\<rparr>)\<rparr>)
          else runResultCallback p cb w)"

text \<open>
  Modelled from the spec: \<^verbatim>\<open>_call_end_callbacks_on_fut(handle, fut)\<close> wraps the
  future so that the span closes exactly when the future settles, and returns the wrapped
  future.
\<close>

definition call_end_callbacks_on_fut :: "tensor \<Rightarrow> fut_ptr \<Rightarrow> world \<Rightarrow> fut_ptr result" where
  "call_end_callbacks_on_fut handle fut w =
     (let profiled = nextPtr w;
          w1 = logEvent (EvCallEndCallbacksOnFut handle fut)
                 (w\<lparr>nextPtr := Suc profiled,
                    profiledFutures := (profiledFutures w)(profiled \<mapsto> Pending)\<rparr>)
      in case addResultCallback fut (EndCallbacks handle profiled) w1 of
           (Inl e, w2) \<Rightarrow> (Inl e, w2)
         | (Inr u, w2) \<Rightarrow> (Inr profiled, w2))"

subsection \<open>Deserialisation\<close>

text \<open>
  Modelled from the spec: \<^verbatim>\<open>deserializeRespToIValue\<close> is declared in
  \<^verbatim>\<open>utils.h\<close>. Decoding a response gives the typed value or fails with
  \<open>DecodeError\<close>; which payloads decode is the world's \<open>decodeResp\<close>.
\<close>

definition deserializeRespToIValue :: "world \<Rightarrow> message \<Rightarrow> error + ivalue" where
  "deserializeRespToIValue w m =
     (case decodeResp w m of None \<Rightarrow> Inl DecodeError | Some v \<Rightarrow> Inr v)"

subsection \<open>The RRef context\<close>

text \<open>
  Modelled from the spec: \<^verbatim>\<open>RRefContext::createUserRRef(ownerId, type)\<close> creates
  a user reference with a fresh reference id and a fork id for this creation.
\<close>

definition createUserRRef :: "worker_id \<Rightarrow> type_ptr \<Rightarrow> world \<Rightarrow> (rref_ptr \<times> rref) \<times> world" where
  "createUserRRef owner returnType w =
     (let p = nextPtr w;
          r = UserRRef owner (nextLocalId w) (Suc (nextLocalId w)) returnType None
      in ((p, r), logEvent (EvCreateUserRRef owner returnType)
                    (w\<lparr>nextPtr := Suc p, nextLocalId := Suc (Suc (nextLocalId w)),
                       rrefs := (rrefs w)(p \<mapsto> r)\<rparr>)))"

text \<open>
  Modelled from the spec: \<^verbatim>\<open>RRefContext::createOwnerRRef(type)\<close> creates an owner
  reference with a fresh reference id and no fork id of its own.
\<close>

definition createOwnerRRef :: "type_ptr \<Rightarrow> world \<Rightarrow> (rref_ptr \<times> rref) \<times> world" where
  "createOwnerRRef returnType w =
     (let p = nextPtr w;
          r = OwnerRRef (nextLocalId w) returnType None None
      in ((p, r), logEvent (EvCreateOwnerRRef returnType)
                    (w\<lparr>nextPtr := Suc p, nextLocalId := Suc (nextLocalId w),
                       rrefs := (rrefs w)(p \<mapsto> r),
                       owners := (owners w)(nextLocalId w \<mapsto> p)\<rparr>)))"

text \<open>
  Modelled from the spec: \<^verbatim>\<open>RRef::registerOwnerCreationFuture(fut)\<close> stores the
  transport future in the reference as its creation future.
\<close>

definition registerOwnerCreationFuture :: "rref_ptr \<Rightarrow> fut_ptr \<Rightarrow> world \<Rightarrow> world" where
  "registerOwnerCreationFuture p fut w =
     logEvent (EvRegisterOwnerCreationFuture p fut)
       (case rrefs w p of
          None \<Rightarrow> w
        | Some (UserRRef owner rid fid ty c) \<Rightarrow>
            w\<lparr>rrefs := (rrefs w)(p \<mapsto> UserRRef owner rid fid ty (Some fut))\<rparr>
        | Some (OwnerRRef rid ty c v) \<Rightarrow>
            w\<lparr>rrefs := (rrefs w)(p \<mapsto> OwnerRRef rid ty (Some fut) v)\<rparr>)"

text \<open>
  Modelled from the spec: \<^verbatim>\<open>RRefContext::addPendingUser(forkId, rref)\<close> records
  the fork as pending, keyed by the fork id.
\<close>

definition addPendingUser :: "fork_id \<Rightarrow> rref_ptr \<Rightarrow> world \<Rightarrow> world" where
  "addPendingUser fid p w =
     logEvent (EvAddPendingUser fid p) (w\<lparr>pendingUsers := (pendingUsers w)(fid \<mapsto> p)\<rparr>)"

text \<open>
  Modelled from the spec: \<^verbatim>\<open>RRefContext::addSelfAsFork(rref)\<close> records the owner
  reference as a fork of itself, under its own id.
\<close>

definition addSelfAsFork :: "rref \<Rightarrow> world \<Rightarrow> world" where
  "addSelfAsFork r w =
     logEvent (EvAddSelfAsFork (rrefId r))
       (w\<lparr>forks := (forks w)(rrefId r := insert (rrefId r) (forks w (rrefId r)))\<rparr>)"

text \<open>
  Modelled from the spec: \<^verbatim>\<open>callback::confirmPendingUser(future, forkId)\<close> is
  declared outside this file. When the transport future has succeeded the fork goes
  from pending to confirmed; when it has failed the pending fork is released. A fork that
  is not pending is left as it is.
\<close>

definition confirmPendingUser :: "transport_future \<Rightarrow> fork_id \<Rightarrow> world \<Rightarrow> unit result" where
  "confirmPendingUser future fid w =
     (let w1 = logEvent (EvConfirmPendingUser fid) w
      in case state future of
           Pending \<Rightarrow> (Inl FutureNotCompleted, w1)
         | Completed m d \<Rightarrow>
             (Inr (),
              if fid \<in> dom (pendingUsers w1)
              then w1\<lparr>pendingUsers := (pendingUsers w1)(fid := None),
                      confirmedUsers := insert fid (confirmedUsers w1)\<rparr>
              else w1)
         | Failed e \<Rightarrow> (Inr (), w1\<lparr>pendingUsers := (pendingUsers w1)(fid := None)\<rparr>))"

text \<open>
  Modelled from the spec: \<^verbatim>\<open>callback::finishCreatingOwnerRRef(future, rrefId)\<close>
  is declared outside this file. It finalises the owner reference: ready with the
  decoded value when the transport future has succeeded, failed otherwise.
\<close>

definition finalizeOwner :: "rref_id \<Rightarrow> error + ivalue \<Rightarrow> world \<Rightarrow> world" where
  "finalizeOwner rid res w =
     (case owners w rid of
        None \<Rightarrow> w
      | Some p \<Rightarrow>
          (case rrefs w p of
             Some (OwnerRRef rid' ty c v) \<Rightarrow>
               w\<lparr>rrefs := (rrefs w)(p \<mapsto> OwnerRRef rid' ty c (Some res))\<rparr>
           | _ \<Rightarrow> w))"

definition finishCreatingOwnerRRef :: "transport_future \<Rightarrow> rref_id \<Rightarrow> world \<Rightarrow> unit result" where
  "finishCreatingOwnerRRef future rid w =
     (let w1 = logEvent (EvFinishCreatingOwnerRRef rid) w
      in case state future of
           Pending \<Rightarrow> (Inl FutureNotCompleted, w1)
         | Completed m d \<Rightarrow> (Inr (), finalizeOwner rid (deserializeRespToIValue w1 m) w1)
         | Failed e \<Rightarrow> (Inr (), finalizeOwner rid (Inl e) w1))"

section \<open>The callbacks of the transport future\<close>

text \<open>
  The bodies of the three lambdas of the source. Each begins with \<^verbatim>\<open>wp.lock()\<close>
  and uses the pointer it gets without testing it: with the future gone the pointer is
  null, and the model ends the callback with \<open>NullPointerDereference\<close>.

  The first is the lambda of \<^verbatim>\<open>rpcTorchscript\<close>:
  \<^verbatim>\<open>if (future->hasError()) futPtr->setError(future->exception_ptr());
  else futPtr->markCompleted(deserializeRespToIValue(...), future->dataPtrs());\<close>
  where \<^verbatim>\<open>constValue()\<close> of a future that is not completed fails, and
  the exception of \<^verbatim>\<open>deserializeRespToIValue\<close> leaves the callback.
\<close>

definition runTransportCallback :: "transport_callback \<Rightarrow> world \<Rightarrow> unit result" where
  "runTransportCallback cb w =
     (case cb of
        BridgeToJitFuture futPtr wp \<Rightarrow>
          (case transportFutures w wp of
             None \<Rightarrow> (Inl NullPointerDereference, w)
           | Some future \<Rightarrow>
               (case state future of
                  Failed e \<Rightarrow> setError futPtr e w
                | Pending \<Rightarrow> (Inl FutureNotCompleted, w)
                | Completed m dataPtrs \<Rightarrow>
                    (case deserializeRespToIValue w m of
                       Inl e \<Rightarrow> (Inl e, w)
                     | Inr v \<Rightarrow> markCompleted futPtr v dataPtrs w)))
      | ConfirmPendingUser wp fid \<Rightarrow>
          (case transportFutures w wp of
             None \<Rightarrow> (Inl NullPointerDereference, w)
           | Some future \<Rightarrow> confirmPendingUser future fid w)
      | FinishCreatingOwnerRRef wp ownerRRefId \<Rightarrow>
          (case transportFutures w wp of
             None \<Rightarrow> (Inl NullPointerDereference, w)
           | Some future \<Rightarrow> finishCreatingOwnerRRef future ownerRRefId w))"

fun runTransportCallbacks :: "transport_callback list \<Rightarrow> world \<Rightarrow> unit result" where
  "runTransportCallbacks [] w = (Inr (), w)"
| "runTransportCallbacks (cb # cbs) w =
     (case runTransportCallback cb w of
        (Inl e, w') \<Rightarrow> (Inl e, w')
      | (Inr u, w') \<Rightarrow> runTransportCallbacks cbs w')"

text \<open>
  Modelled from the spec: \<^verbatim>\<open>jitFuture->addCallback(...)\<close> on the transport future
  registers the callback to run on settlement, or runs it at once when the future is
  settled. \<^verbatim>\<open>at::wrapPropagateTLSState\<close> carries the thread-local state of the caller
  into the callback and leaves what the callback does as it is.
\<close>

definition addCallback :: "fut_ptr \<Rightarrow> transport_callback \<Rightarrow> world \<Rightarrow> unit result" where
  "addCallback p cb w =
     (let w1 = logEvent (EvAddCallback p cb) w
      in case transportFutures w1 p of
           None \<Rightarrow> (Inl InvalidHandle, w1)
         | Some f \<Rightarrow>
             if state f = Pending
             then (Inr (), w1\<lparr>transportFutures := (transportFutures w1)
                                (p \<mapsto> f\<lparr>callbacks := callbacks f @ [cb]\<rparr>)\<rparr>)
             else runTransportCallback cb w1)"

text \<open>
  The transport settles its future, with a response or with an error: the step of the
  environment that runs the callbacks registered by the two entry points.
\<close>

definition settleTransportFuture :: "fut_ptr \<Rightarrow> message fut_state \<Rightarrow> world \<Rightarrow> unit result" where
  "settleTransportFuture p st w =
     (case transportFutures w p of
        None \<Rightarrow> (Inl InvalidHandle, w)
      | Some f \<Rightarrow>
          if state f \<noteq> Pending then (Inl AlreadySettled, w)
          else runTransportCallbacks (callbacks f)
                 (w\<lparr>transportFutures := (transportFutures w)
                      (p \<mapsto> f\<lparr>state := st, callbacks := []\<rparr>)\<rparr>))"

section \<open>The entry points\<close>

definition rpcTorchscript ::
  "string \<Rightarrow> qualified_name \<Rightarrow> function_schema \<Rightarrow> ivalue list \<Rightarrow> real \<Rightarrow> bool
     \<Rightarrow> world \<Rightarrow> fut_ptr result" where
  "rpcTorchscript dstWorkerName qualifiedName functionSchema stack rpcTimeoutSeconds
       isAsyncExecution w =
     (let shouldProfile = (profilerEnabled w \<and> \<not> isCurrentKeySet w);
          (handle, w1) =
            (if shouldProfile
             then let rpcAsyncJitKey = rpcAsyncJitKeyOf qualifiedName
                        (workerName (agentWorkerInfo w)) dstWorkerName;
                      (h, wa) = record_function_enter rpcAsyncJitKey w
                  in (h, setCurrentKey rpcAsyncJitKey wa)
             else (Zeros 1, w));
          scriptCall = ScriptCall qualifiedName stack isAsyncExecution
      in case getWorkerInfo dstWorkerName w1 of
           Inl e \<Rightarrow> (Inl e, w1)
         | Inr dstWorkerInfo \<Rightarrow>
             (let (jitFuture, w2) =
                    sendMessageWithAutograd dstWorkerInfo (ScriptCallMessage scriptCall)
                      True rpcTimeoutSeconds w1;
                  rets = returns functionSchema
              in if length rets \<noteq> 1 then (Inl (SchemaMismatch (length rets)), w2)
                 else
                   (let returnType = argType (rets ! 0);
                        (futPtr, w3) = createInstance returnType w2
                    in case addCallback jitFuture (BridgeToJitFuture futPtr jitFuture) w3 of
                         (Inl e, w4) \<Rightarrow> (Inl e, w4)
                       | (Inr u, w4) \<Rightarrow>
                           if shouldProfile then call_end_callbacks_on_fut handle futPtr w4
                           else (Inr futPtr, w4))))"

definition remoteTorchscript ::
  "string \<Rightarrow> qualified_name \<Rightarrow> function_schema \<Rightarrow> ivalue list \<Rightarrow> real \<Rightarrow> bool
     \<Rightarrow> world \<Rightarrow> rref_ptr result" where
  "remoteTorchscript dstWorkerName qualifiedName functionSchema stack rpcTimeoutSeconds
       isAsyncExecution w =
     (case getWorkerInfo dstWorkerName w of
        Inl e \<Rightarrow> (Inl e, w)
      | Inr dstWorkerInfo \<Rightarrow>
          (let rets = returns functionSchema
           in if length rets \<noteq> 1 then (Inl (SchemaMismatch (length rets)), w)
              else
                (let returnType = argType (rets ! 0)
                 in if getWorkerId w \<noteq> workerId dstWorkerInfo
                    then
                      (let ((userRRefPtr, userRRef), w1) =
                             createUserRRef (workerId dstWorkerInfo) returnType w;
                           scriptRemoteCall = ScriptRemoteCall qualifiedName stack
                             (rrefId userRRef) (forkId userRRef) isAsyncExecution;
                           (jitFuture, w2) =
                             sendMessageWithAutograd dstWorkerInfo
                               (ScriptRemoteCallMessage scriptRemoteCall) True
                               rpcTimeoutSeconds w1;
                           w3 = registerOwnerCreationFuture userRRefPtr jitFuture w2;
                           w4 = addPendingUser (forkId userRRef) userRRefPtr w3
                       in case addCallback jitFuture
                                 (ConfirmPendingUser jitFuture (forkId userRRef)) w4 of
                            (Inl e, w5) \<Rightarrow> (Inl e, w5)
                          | (Inr u, w5) \<Rightarrow> (Inr userRRefPtr, w5))
                    else
                      (let ((ownerRRefPtr, ownerRRef), w1) = createOwnerRRef returnType w;
                           w2 = addSelfAsFork ownerRRef w1;
                           scriptRemoteCall = ScriptRemoteCall qualifiedName stack
                             (rrefId ownerRRef) (rrefId ownerRRef) isAsyncExecution;
                           (jitFuture, w3) =
                             sendMessageWithAutograd dstWorkerInfo
                               (ScriptRemoteCallMessage scriptRemoteCall) True
                               rpcTimeoutSeconds w2;
                           w4 = registerOwnerCreationFuture ownerRRefPtr jitFuture w3
                       in case addCallback jitFuture
                                 (FinishCreatingOwnerRRef jitFuture (rrefId ownerRRef)) w4 of
                            (Inl e, w5) \<Rightarrow> (Inl e, w5)
                          | (Inr u, w5) \<Rightarrow> (Inr ownerRRefPtr, w5)))))"

section \<open>Observers and example inputs\<close>

text \<open>The weak pointer a callback has captured.\<close>

fun weakHandle :: "transport_callback \<Rightarrow> fut_ptr" where
  "weakHandle (BridgeToJitFuture futPtr wp) = wp"
| "weakHandle (ConfirmPendingUser wp fid) = wp"
| "weakHandle (FinishCreatingOwnerRRef wp ownerRRefId) = wp"

fun isSend :: "event \<Rightarrow> bool" where
  "isSend (EvSend dst msg forceGradRecording rpcTimeoutSeconds) = True"
| "isSend e = False"

text \<open>
  The last strong holder lets go of a transport future: the future leaves the heap, and
  the weak pointers to it are expired.
\<close>

definition destroyFuture :: "fut_ptr \<Rightarrow> world \<Rightarrow> world" where
  "destroyFuture p w = w\<lparr>transportFutures := (transportFutures w)(p := None)\<rparr>"

definition transportStateAt :: "world \<Rightarrow> fut_ptr \<Rightarrow> message fut_state option" where
  "transportStateAt w p = map_option state (transportFutures w p)"

definition resultStateAt :: "world \<Rightarrow> fut_ptr \<Rightarrow> ivalue fut_state option" where
  "resultStateAt w p = map_option resultState (resultFutures w p)"

text \<open>
  A process \<open>A\<close> (id 0) that knows itself and a worker \<open>B\<close> (id 1), with the profiler
  off, a transport whose futures are still pending when the caller gets them, and a
  decoder that accepts one-byte payloads.
\<close>

definition exampleDecoder :: "message \<rightharpoonup> ivalue" where
  "exampleDecoder m =
     (case m of ResponseMessage [n] \<Rightarrow> Some (IVInt (int n)) | _ \<Rightarrow> None)"

definition exampleWorld :: world where
  "exampleWorld =
     \<lparr>agentWorkerInfo = WorkerInfo ''A'' 0,
      knownWorkers = [''A'' \<mapsto> WorkerInfo ''A'' 0, ''B'' \<mapsto> WorkerInfo ''B'' 1],
      transportReply = (\<lambda>dst msg. Pending),
      decodeResp = exampleDecoder,
      profilerOn = False, currentKey = None, openSpans = Map.empty, nextPtr = 0,
      transportFutures = Map.empty, resultFutures = Map.empty, profiledFutures = Map.empty,
      nextLocalId = 0, rrefs = Map.empty, owners = Map.empty, pendingUsers = Map.empty,
      confirmedUsers = {}, forks = (\<lambda>r. {}), trace = []\<rparr>"

text \<open>The schema of a function that returns one \<open>int\<close>, and of one that returns nothing.\<close>

definition intSchema :: function_schema where
  "intSchema = FunctionSchema ''f'' [] [Argument ''r'' ''int'']"

definition noneSchema :: function_schema where
  "noneSchema = FunctionSchema ''f'' [] []"

section \<open>The reference call\<close>

lemmas collaborator_defs =
  getWorkerInfo_def getWorkerId_def sendMessageWithAutograd_def logEvent_def emitted_def
  createUserRRef_def createOwnerRRef_def registerOwnerCreationFuture_def addPendingUser_def
  addSelfAsFork_def addCallback_def runTransportCallback_def confirmPendingUser_def
  finishCreatingOwnerRRef_def finalizeOwner_def deserializeRespToIValue_def

lemmas example_defs = exampleWorld_def exampleDecoder_def intSchema_def noneSchema_def

text \<open>
  The remote branch, run symbolically: the pointer it returns, the events it appends,
  in order, and the reference it leaves in the store. The confirmation handler runs
  inside the call only when the transport future is settled by the time the callback is
  registered.
\<close>

lemma remote_branch:
  assumes "getWorkerInfo dst w = Inr info" and "length (returns fs) = 1"
    and "getWorkerId w \<noteq> workerId info"
  shows "fst (remoteTorchscript dst qn fs stack t async w) = Inr (nextPtr w)"
    and "emitted w (snd (remoteTorchscript dst qn fs stack t async w)) =
      [EvCreateUserRRef (workerId info) (argType (returns fs ! 0)),
       EvSend info (ScriptRemoteCallMessage
          (ScriptRemoteCall qn stack (nextLocalId w) (Suc (nextLocalId w)) async)) True t,
       EvRegisterOwnerCreationFuture (nextPtr w) (Suc (nextPtr w)),
       EvAddPendingUser (Suc (nextLocalId w)) (nextPtr w),
       EvAddCallback (Suc (nextPtr w))
         (ConfirmPendingUser (Suc (nextPtr w)) (Suc (nextLocalId w)))]
      @ (if transportReply w info (ScriptRemoteCallMessage
          (ScriptRemoteCall qn stack (nextLocalId w) (Suc (nextLocalId w)) async)) = Pending
         then [] else [EvConfirmPendingUser (Suc (nextLocalId w))])"
    and "rrefs (snd (remoteTorchscript dst qn fs stack t async w)) (nextPtr w) =
      Some (UserRRef (workerId info) (nextLocalId w) (Suc (nextLocalId w))
              (argType (returns fs ! 0)) (Some (Suc (nextPtr w))))"
  using assms
  by (auto simp: remoteTorchscript_def collaborator_defs Let_def split: fut_state.splits)

text \<open>The local branch, in the same way.\<close>

lemma local_branch:
  assumes "getWorkerInfo dst w = Inr info" and "length (returns fs) = 1"
    and "getWorkerId w = workerId info"
  shows "fst (remoteTorchscript dst qn fs stack t async w) = Inr (nextPtr w)"
    and "emitted w (snd (remoteTorchscript dst qn fs stack t async w)) =
      [EvCreateOwnerRRef (argType (returns fs ! 0)),
       EvAddSelfAsFork (nextLocalId w),
       EvSend info (ScriptRemoteCallMessage
          (ScriptRemoteCall qn stack (nextLocalId w) (nextLocalId w) async)) True t,
       EvRegisterOwnerCreationFuture (nextPtr w) (Suc (nextPtr w)),
       EvAddCallback (Suc (nextPtr w))
         (FinishCreatingOwnerRRef (Suc (nextPtr w)) (nextLocalId w))]
      @ (if transportReply w info (ScriptRemoteCallMessage
          (ScriptRemoteCall qn stack (nextLocalId w) (nextLocalId w) async)) = Pending
         then [] else [EvFinishCreatingOwnerRRef (nextLocalId w)])"
    and "\<exists>v. rrefs (snd (remoteTorchscript dst qn fs stack t async w)) (nextPtr w) =
      Some (OwnerRRef (nextLocalId w) (argType (returns fs ! 0)) (Some (Suc (nextPtr w))) v)"
    and "nextLocalId w \<in> forks (snd (remoteTorchscript dst qn fs stack t async w)) (nextLocalId w)"
    and "nextLocalId (snd (remoteTorchscript dst qn fs stack t async w)) = Suc (nextLocalId w)"
  using assms
  by (auto simp: remoteTorchscript_def collaborator_defs Let_def split: fut_state.splits)

text \<open>The inputs of the examples satisfy the hypotheses of the theorems below.\<close>

lemma example_resolves_B: "getWorkerInfo ''B'' exampleWorld = Inr (WorkerInfo ''B'' 1)"
  by (simp add: getWorkerInfo_def exampleWorld_def)

lemma example_resolves_A: "getWorkerInfo ''A'' exampleWorld = Inr (WorkerInfo ''A'' 0)"
  by (simp add: getWorkerInfo_def exampleWorld_def)

lemma example_arity: "length (returns intSchema) = 1"
  by (simp add: intSchema_def)

lemma example_B_remote: "getWorkerId exampleWorld \<noteq> workerId (WorkerInfo ''B'' 1)"
  by (simp add: getWorkerId_def exampleWorld_def)

lemma example_A_local: "getWorkerId exampleWorld = workerId (WorkerInfo ''A'' 0)"
  by (simp add: getWorkerId_def exampleWorld_def)

text \<open>
  C6. A reference call whose destination resolves and whose function returns one value
  branches on locality: when the id of the destination differs from the id of the local
  worker, the call returns a user reference, created through the RRef context with the
  destination as owner and the declared return type; when the ids are equal, it returns
  an owner reference of that type instead.
\<close>

theorem remoteTorchscript_branches_on_locality:
  assumes "getWorkerInfo dst w = Inr info" and "length (returns fs) = 1"
  shows "if getWorkerId w \<noteq> workerId info
         then \<exists>p rid fid c.
                fst (remoteTorchscript dst qn fs stack t async w) = Inr p \<and>
                rrefs (snd (remoteTorchscript dst qn fs stack t async w)) p =
                  Some (UserRRef (workerId info) rid fid (argType (returns fs ! 0)) c) \<and>
                EvCreateUserRRef (workerId info) (argType (returns fs ! 0))
                  \<in> set (emitted w (snd (remoteTorchscript dst qn fs stack t async w))) \<and>
                EvCreateOwnerRRef (argType (returns fs ! 0))
                  \<notin> set (emitted w (snd (remoteTorchscript dst qn fs stack t async w)))
         else \<exists>p rid c v.
                fst (remoteTorchscript dst qn fs stack t async w) = Inr p \<and>
                rrefs (snd (remoteTorchscript dst qn fs stack t async w)) p =
                  Some (OwnerRRef rid (argType (returns fs ! 0)) c v) \<and>
                EvCreateOwnerRRef (argType (returns fs ! 0))
                  \<in> set (emitted w (snd (remoteTorchscript dst qn fs stack t async w))) \<and>
                EvCreateUserRRef (workerId info) (argType (returns fs ! 0))
                  \<notin> set (emitted w (snd (remoteTorchscript dst qn fs stack t async w)))"
proof (cases "getWorkerId w \<noteq> workerId info")
  case True
  from remote_branch [OF assms True, of qn stack t async] True show ?thesis
    by auto
next
  case False
  then have loc: "getWorkerId w = workerId info" by simp
  from local_branch [OF assms loc, of qn stack t async] loc show ?thesis
    by auto
qed

text \<open>
  The theorem at a call to the remote worker \<open>B\<close> and at a call to the local worker
  \<open>A\<close>: the first returns a user reference owned by worker 1, the second an owner
  reference.
\<close>

theorem remoteTorchscript_branches_on_locality_witness:
  "getWorkerInfo ''B'' exampleWorld = Inr (WorkerInfo ''B'' 1) \<and>
   getWorkerInfo ''A'' exampleWorld = Inr (WorkerInfo ''A'' 0) \<and>
   length (returns intSchema) = 1 \<and>
   (\<exists>p rid fid c.
      fst (remoteTorchscript ''B'' ''m.f'' intSchema [IVInt 1] 5 False exampleWorld) = Inr p \<and>
      rrefs (snd (remoteTorchscript ''B'' ''m.f'' intSchema [IVInt 1] 5 False exampleWorld)) p =
        Some (UserRRef 1 rid fid ''int'' c)) \<and>
   (\<exists>p rid c v.
      fst (remoteTorchscript ''A'' ''m.f'' intSchema [IVInt 1] 5 False exampleWorld) = Inr p \<and>
      rrefs (snd (remoteTorchscript ''A'' ''m.f'' intSchema [IVInt 1] 5 False exampleWorld)) p =
        Some (OwnerRRef rid ''int'' c v))"
proof -
  have b: "\<exists>p rid fid c.
      fst (remoteTorchscript ''B'' ''m.f'' intSchema [IVInt 1] 5 False exampleWorld) = Inr p \<and>
      rrefs (snd (remoteTorchscript ''B'' ''m.f'' intSchema [IVInt 1] 5 False exampleWorld)) p =
        Some (UserRRef 1 rid fid ''int'' c)"
    using remoteTorchscript_branches_on_locality
            [OF example_resolves_B example_arity, of "''m.f''" "[IVInt 1]" 5 False]
          example_B_remote
    by (auto simp: intSchema_def)
  have a: "\<exists>p rid c v.
      fst (remoteTorchscript ''A'' ''m.f'' intSchema [IVInt 1] 5 False exampleWorld) = Inr p \<and>
      rrefs (snd (remoteTorchscript ''A'' ''m.f'' intSchema [IVInt 1] 5 False exampleWorld)) p =
        Some (OwnerRRef rid ''int'' c v)"
    using remoteTorchscript_branches_on_locality
            [OF example_resolves_A example_arity, of "''m.f''" "[IVInt 1]" 5 False]
          example_A_local
    by (auto simp: intSchema_def)
  from a b example_resolves_A example_resolves_B example_arity show ?thesis
    by simp
qed

text \<open>
  C7. In a reference call to the local worker, the owner reference is registered as a
  fork of itself (\<^verbatim>\<open>addSelfAsFork\<close>) before the message is handed to the transport,
  hence before the transport future exists, is registered as the creation future of the
  reference, gets its callback, or settles; and the self fork is in the registry when the
  call returns.
\<close>

theorem remoteTorchscript_self_fork_before_dispatch:
  assumes "getWorkerInfo dst w = Inr info" and "length (returns fs) = 1"
    and "getWorkerId w = workerId info"
  shows "\<exists>p rid F c v.
           fst (remoteTorchscript dst qn fs stack t async w) = Inr p \<and>
           rrefs (snd (remoteTorchscript dst qn fs stack t async w)) p =
             Some (OwnerRRef rid (argType (returns fs ! 0)) (Some F) v) \<and>
           rid \<in> forks (snd (remoteTorchscript dst qn fs stack t async w)) rid \<and>
           happensBefore (EvAddSelfAsFork rid)
             (EvSend info (ScriptRemoteCallMessage (ScriptRemoteCall qn stack rid rid async)) True t)
             (emitted w (snd (remoteTorchscript dst qn fs stack t async w))) \<and>
           happensBefore (EvAddSelfAsFork rid) (EvRegisterOwnerCreationFuture p F)
             (emitted w (snd (remoteTorchscript dst qn fs stack t async w))) \<and>
           happensBefore (EvAddSelfAsFork rid) (EvAddCallback F (FinishCreatingOwnerRRef F rid))
             (emitted w (snd (remoteTorchscript dst qn fs stack t async w))) \<and>
           EvFinishCreatingOwnerRRef rid \<notin> set (takeWhile (\<lambda>e. e \<noteq> EvAddSelfAsFork rid)
             (emitted w (snd (remoteTorchscript dst qn fs stack t async w))))"
  using local_branch [OF assms, of qn stack t async]
  by (auto simp: happensBefore_def)

theorem remoteTorchscript_self_fork_before_dispatch_witness:
  "getWorkerInfo ''A'' exampleWorld = Inr (WorkerInfo ''A'' 0) \<and>
   length (returns intSchema) = 1 \<and>
   getWorkerId exampleWorld = workerId (WorkerInfo ''A'' 0) \<and>
   (\<exists>p rid F.
      fst (remoteTorchscript ''A'' ''m.f'' intSchema [IVInt 1] 5 False exampleWorld) = Inr p \<and>
      rid \<in> forks (snd (remoteTorchscript ''A'' ''m.f'' intSchema [IVInt 1] 5 False exampleWorld)) rid \<and>
      happensBefore (EvAddSelfAsFork rid)
        (EvSend (WorkerInfo ''A'' 0)
           (ScriptRemoteCallMessage (ScriptRemoteCall ''m.f'' [IVInt 1] rid rid False)) True 5)
        (emitted exampleWorld
           (snd (remoteTorchscript ''A'' ''m.f'' intSchema [IVInt 1] 5 False exampleWorld))) \<and>
      happensBefore (EvAddSelfAsFork rid) (EvRegisterOwnerCreationFuture p F)
        (emitted exampleWorld
           (snd (remoteTorchscript ''A'' ''m.f'' intSchema [IVInt 1] 5 False exampleWorld))))"
proof -
  from remoteTorchscript_self_fork_before_dispatch
         [OF example_resolves_A example_arity example_A_local, of "''m.f''" "[IVInt 1]" 5 False]
  have "\<exists>p rid F.
      fst (remoteTorchscript ''A'' ''m.f'' intSchema [IVInt 1] 5 False exampleWorld) = Inr p \<and>
      rid \<in> forks (snd (remoteTorchscript ''A'' ''m.f'' intSchema [IVInt 1] 5 False exampleWorld)) rid \<and>
      happensBefore (EvAddSelfAsFork rid)
        (EvSend (WorkerInfo ''A'' 0)
           (ScriptRemoteCallMessage (ScriptRemoteCall ''m.f'' [IVInt 1] rid rid False)) True 5)
        (emitted exampleWorld
           (snd (remoteTorchscript ''A'' ''m.f'' intSchema [IVInt 1] 5 False exampleWorld))) \<and>
      happensBefore (EvAddSelfAsFork rid) (EvRegisterOwnerCreationFuture p F)
        (emitted exampleWorld
           (snd (remoteTorchscript ''A'' ''m.f'' intSchema [IVInt 1] 5 False exampleWorld)))"
    by auto
  with example_resolves_A example_arity example_A_local show ?thesis
    by simp
qed

text \<open>
  C8. In a reference call to the local worker, the one message handed to the transport
  is the reference-creating descriptor with the id of the owner reference in both places,
  as reference id and as fork id; the call draws one id from the RRef context, so no
  fork id is allocated apart from it.
\<close>

theorem remoteTorchscript_local_descriptor_ids:
  assumes "getWorkerInfo dst w = Inr info" and "length (returns fs) = 1"
    and "getWorkerId w = workerId info"
  shows "\<exists>p rid c v.
           fst (remoteTorchscript dst qn fs stack t async w) = Inr p \<and>
           rrefs (snd (remoteTorchscript dst qn fs stack t async w)) p =
             Some (OwnerRRef rid (argType (returns fs ! 0)) c v) \<and>
           filter isSend (emitted w (snd (remoteTorchscript dst qn fs stack t async w))) =
             [EvSend info (ScriptRemoteCallMessage (ScriptRemoteCall qn stack rid rid async))
                True t] \<and>
           nextLocalId (snd (remoteTorchscript dst qn fs stack t async w)) = Suc (nextLocalId w)"
  using local_branch [OF assms, of qn stack t async]
  by auto

theorem remoteTorchscript_local_descriptor_ids_witness:
  "getWorkerInfo ''A'' exampleWorld = Inr (WorkerInfo ''A'' 0) \<and>
   length (returns intSchema) = 1 \<and>
   getWorkerId exampleWorld = workerId (WorkerInfo ''A'' 0) \<and>
   (\<exists>rid.
      filter isSend (emitted exampleWorld
          (snd (remoteTorchscript ''A'' ''m.f'' intSchema [IVInt 1] 5 False exampleWorld))) =
        [EvSend (WorkerInfo ''A'' 0)
           (ScriptRemoteCallMessage (ScriptRemoteCall ''m.f'' [IVInt 1] rid rid False)) True 5]) \<and>
   nextLocalId (snd (remoteTorchscript ''A'' ''m.f'' intSchema [IVInt 1] 5 False exampleWorld)) =
     Suc (nextLocalId exampleWorld)"
proof -
  from remoteTorchscript_local_descriptor_ids
         [OF example_resolves_A example_arity example_A_local, of "''m.f''" "[IVInt 1]" 5 False]
  have "(\<exists>rid.
      filter isSend (emitted exampleWorld
          (snd (remoteTorchscript ''A'' ''m.f'' intSchema [IVInt 1] 5 False exampleWorld))) =
        [EvSend (WorkerInfo ''A'' 0)
           (ScriptRemoteCallMessage (ScriptRemoteCall ''m.f'' [IVInt 1] rid rid False)) True 5]) \<and>
   nextLocalId (snd (remoteTorchscript ''A'' ''m.f'' intSchema [IVInt 1] 5 False exampleWorld)) =
     Suc (nextLocalId exampleWorld)"
    by auto
  with example_resolves_A example_arity example_A_local show ?thesis
    by simp
qed

text \<open>
  C2, as stated, fails: in a reference call to another worker the message is handed to
  the transport first, and the fork is registered as pending afterwards. At the call to
  worker \<open>B\<close> the transport receives the message of the reference with fork id 1 when
  \<^verbatim>\<open>addPendingUser\<close> has not yet run for it.
\<close>

theorem remoteTorchscript_pending_before_send_counterexample:
  "fst (remoteTorchscript ''B'' ''m.f'' intSchema [IVInt 1] 5 False exampleWorld) = Inr 0 \<and>
   rrefs (snd (remoteTorchscript ''B'' ''m.f'' intSchema [IVInt 1] 5 False exampleWorld)) 0 =
     Some (UserRRef 1 0 1 ''int'' (Some 1)) \<and>
   happensBefore
     (EvSend (WorkerInfo ''B'' 1)
        (ScriptRemoteCallMessage (ScriptRemoteCall ''m.f'' [IVInt 1] 0 1 False)) True 5)
     (EvAddPendingUser 1 0)
     (emitted exampleWorld
        (snd (remoteTorchscript ''B'' ''m.f'' intSchema [IVInt 1] 5 False exampleWorld))) \<and>
   \<not> happensBefore (EvAddPendingUser 1 0)
     (EvSend (WorkerInfo ''B'' 1)
        (ScriptRemoteCallMessage (ScriptRemoteCall ''m.f'' [IVInt 1] 0 1 False)) True 5)
     (emitted exampleWorld
        (snd (remoteTorchscript ''B'' ''m.f'' intSchema [IVInt 1] 5 False exampleWorld)))"
  by (simp add: remoteTorchscript_def collaborator_defs example_defs happensBefore_def Let_def)

text \<open>
  C2, amended. In a reference call to another worker the fork is registered as pending
  (\<^verbatim>\<open>addPendingUser\<close>, keyed by the fork id of the new reference) after the message
  has been handed to the transport and before the confirmation callback is registered on
  the transport future; the confirmation handler does not run before the registration.
\<close>

theorem remoteTorchscript_pending_before_confirmation:
  assumes "getWorkerInfo dst w = Inr info" and "length (returns fs) = 1"
    and "getWorkerId w \<noteq> workerId info"
  shows "\<exists>p rid fid F.
           fst (remoteTorchscript dst qn fs stack t async w) = Inr p \<and>
           rrefs (snd (remoteTorchscript dst qn fs stack t async w)) p =
             Some (UserRRef (workerId info) rid fid (argType (returns fs ! 0)) (Some F)) \<and>
           happensBefore
             (EvSend info (ScriptRemoteCallMessage (ScriptRemoteCall qn stack rid fid async)) True t)
             (EvAddPendingUser fid p)
             (emitted w (snd (remoteTorchscript dst qn fs stack t async w))) \<and>
           happensBefore (EvAddPendingUser fid p) (EvAddCallback F (ConfirmPendingUser F fid))
             (emitted w (snd (remoteTorchscript dst qn fs stack t async w))) \<and>
           EvConfirmPendingUser fid \<notin> set (takeWhile (\<lambda>e. e \<noteq> EvAddPendingUser fid p)
             (emitted w (snd (remoteTorchscript dst qn fs stack t async w))))"
  using remote_branch [OF assms, of qn stack t async]
  by (auto simp: happensBefore_def)

theorem remoteTorchscript_pending_before_confirmation_witness:
  "getWorkerInfo ''B'' exampleWorld = Inr (WorkerInfo ''B'' 1) \<and>
   length (returns intSchema) = 1 \<and>
   getWorkerId exampleWorld \<noteq> workerId (WorkerInfo ''B'' 1) \<and>
   (\<exists>p rid fid F.
      fst (remoteTorchscript ''B'' ''m.f'' intSchema [IVInt 1] 5 False exampleWorld) = Inr p \<and>
      happensBefore
        (EvSend (WorkerInfo ''B'' 1)
           (ScriptRemoteCallMessage (ScriptRemoteCall ''m.f'' [IVInt 1] rid fid False)) True 5)
        (EvAddPendingUser fid p)
        (emitted exampleWorld
           (snd (remoteTorchscript ''B'' ''m.f'' intSchema [IVInt 1] 5 False exampleWorld))) \<and>
      happensBefore (EvAddPendingUser fid p) (EvAddCallback F (ConfirmPendingUser F fid))
        (emitted exampleWorld
           (snd (remoteTorchscript ''B'' ''m.f'' intSchema [IVInt 1] 5 False exampleWorld))))"
proof -
  from remoteTorchscript_pending_before_confirmation
         [OF example_resolves_B example_arity example_B_remote, of "''m.f''" "[IVInt 1]" 5 False]
  have "\<exists>p rid fid F.
      fst (remoteTorchscript ''B'' ''m.f'' intSchema [IVInt 1] 5 False exampleWorld) = Inr p \<and>
      happensBefore
        (EvSend (WorkerInfo ''B'' 1)
           (ScriptRemoteCallMessage (ScriptRemoteCall ''m.f'' [IVInt 1] rid fid False)) True 5)
        (EvAddPendingUser fid p)
        (emitted exampleWorld
           (snd (remoteTorchscript ''B'' ''m.f'' intSchema [IVInt 1] 5 False exampleWorld))) \<and>
      happensBefore (EvAddPendingUser fid p) (EvAddCallback F (ConfirmPendingUser F fid))
        (emitted exampleWorld
           (snd (remoteTorchscript ''B'' ''m.f'' intSchema [IVInt 1] 5 False exampleWorld)))"
    by auto
  with example_resolves_B example_arity example_B_remote show ?thesis
    by simp
qed

section \<open>The arity check\<close>

lemmas future_defs =
  settleTransportFuture_def settleResult_def markCompleted_def setError_def createInstance_def
  addResultCallback_def call_end_callbacks_on_fut_def runResultCallback_def settleProfiled_def
  closeSpan_def

lemmas profiler_defs =
  profilerEnabled_def isCurrentKeySet_def record_function_enter_def setCurrentKey_def
  rpcAsyncJitKeyOf_def

text \<open>
  The reference call checks the arity first: with a destination that resolves and a
  schema that does not declare one return value, it fails and leaves the world as it
  was. No reference is created and nothing reaches the transport.
\<close>

lemma remoteTorchscript_arity_check_first:
  assumes "getWorkerInfo dst w = Inr info" and "length (returns fs) \<noteq> 1"
  shows "remoteTorchscript dst qn fs stack t async w =
           (Inl (SchemaMismatch (length (returns fs))), w)"
  using assms by (simp add: remoteTorchscript_def)

text \<open>
  The plain call checks the arity after \<^verbatim>\<open>sendMessageWithAutograd\<close>: it fails with
  the same error, and its message has been handed to the transport.
\<close>

lemma rpcTorchscript_arity_check_after_send:
  assumes "getWorkerInfo dst w = Inr info" and "length (returns fs) \<noteq> 1"
  shows "fst (rpcTorchscript dst qn fs stack t async w) =
           Inl (SchemaMismatch (length (returns fs)))"
    and "filter isSend (emitted w (snd (rpcTorchscript dst qn fs stack t async w))) =
           [EvSend info (ScriptCallMessage (ScriptCall qn stack async)) True t]"
  using assms
  by (auto simp: rpcTorchscript_def collaborator_defs profiler_defs Let_def split: prod.splits)

text \<open>
  C1 asks that a call whose function does not declare exactly one return value fails
  with \<open>SchemaMismatch\<close> before any message is handed to the transport. The plain call
  to worker \<open>B\<close> of a function that returns nothing fails with \<open>SchemaMismatch\<close>, and
  the events of the call are the send of its message: the transport has been reached.
\<close>

theorem rpcTorchscript_sends_before_arity_check:
  "fst (rpcTorchscript ''B'' ''m.f'' noneSchema [IVInt 1] 5 False exampleWorld) =
     Inl (SchemaMismatch 0) \<and>
   emitted exampleWorld
       (snd (rpcTorchscript ''B'' ''m.f'' noneSchema [IVInt 1] 5 False exampleWorld)) =
     [EvSend (WorkerInfo ''B'' 1) (ScriptCallMessage (ScriptCall ''m.f'' [IVInt 1] False)) True 5]"
  by (simp add: rpcTorchscript_def collaborator_defs profiler_defs example_defs Let_def)

section \<open>Confirmation of the fork\<close>

lemma remote_branch_pending:
  assumes "getWorkerInfo dst w = Inr info" and "length (returns fs) = 1"
    and "getWorkerId w \<noteq> workerId info"
    and "transportReply w info (ScriptRemoteCallMessage
          (ScriptRemoteCall qn stack (nextLocalId w) (Suc (nextLocalId w)) async)) = Pending"
  shows "transportFutures (snd (remoteTorchscript dst qn fs stack t async w)) (Suc (nextPtr w)) =
           Some \<lparr>state = Pending,
                 callbacks = [ConfirmPendingUser (Suc (nextPtr w)) (Suc (nextLocalId w))]\<rparr>"
    and "pendingUsers (snd (remoteTorchscript dst qn fs stack t async w)) (Suc (nextLocalId w)) =
           Some (nextPtr w)"
    and "confirmedUsers (snd (remoteTorchscript dst qn fs stack t async w)) = confirmedUsers w"
  using assms
  by (auto simp: remoteTorchscript_def collaborator_defs Let_def)

lemma remote_branch_settled:
  assumes "getWorkerInfo dst w = Inr info" and "length (returns fs) = 1"
    and "getWorkerId w \<noteq> workerId info"
    and "transportReply w info (ScriptRemoteCallMessage
          (ScriptRemoteCall qn stack (nextLocalId w) (Suc (nextLocalId w)) async)) = r"
    and "r \<noteq> Pending"
  shows "transportFutures (snd (remoteTorchscript dst qn fs stack t async w)) (Suc (nextPtr w)) =
           Some \<lparr>state = r, callbacks = []\<rparr>"
    and "pendingUsers (snd (remoteTorchscript dst qn fs stack t async w)) (Suc (nextLocalId w)) =
           None"
    and "confirmedUsers (snd (remoteTorchscript dst qn fs stack t async w)) =
           (case r of Completed m d \<Rightarrow> insert (Suc (nextLocalId w)) (confirmedUsers w)
            | _ \<Rightarrow> confirmedUsers w)"
  using assms
  by (auto simp: remoteTorchscript_def collaborator_defs Let_def split: fut_state.splits)

text \<open>The transport settles a pending future that carries one confirmation callback.\<close>

lemma settle_confirm:
  assumes "transportFutures w1 F = Some \<lparr>state = Pending, callbacks = [ConfirmPendingUser F fid]\<rparr>"
    and "pendingUsers w1 fid = Some p" and "st \<noteq> Pending"
  shows "fst (settleTransportFuture F st w1) = Inr ()"
    and "emitted w1 (snd (settleTransportFuture F st w1)) = [EvConfirmPendingUser fid]"
    and "pendingUsers (snd (settleTransportFuture F st w1)) fid = None"
    and "confirmedUsers (snd (settleTransportFuture F st w1)) =
           (case st of Completed m d \<Rightarrow> insert fid (confirmedUsers w1) | _ \<Rightarrow> confirmedUsers w1)"
  using assms
  by (auto simp: settleTransportFuture_def collaborator_defs Let_def split: fut_state.splits)

lemma settle_settled:
  assumes "transportFutures w1 F = Some \<lparr>state = r, callbacks = cbs\<rparr>" and "r \<noteq> Pending"
  shows "fst (settleTransportFuture F st w1) = Inl AlreadySettled"
  using assms by (simp add: settleTransportFuture_def)

text \<open>
  C4. In a reference call to another worker, the confirmation handler runs exactly once
  for the fork id of the returned reference. When the transport future is pending at the
  return of the call, the fork is pending, the handler has not run, and the settlement of
  the future (with a response or with an error \<open>st\<close>) runs it once; when the future was
  settled by the time the callback was registered, the handler has run once inside the
  call, and the future cannot be settled again. After the handler the fork is no longer
  pending: it is confirmed when the future succeeded, and released when it failed.
\<close>

theorem remoteTorchscript_confirms_fork_once:
  assumes "getWorkerInfo dst w = Inr info" and "length (returns fs) = 1"
    and "getWorkerId w \<noteq> workerId info" and "st \<noteq> Pending"
  shows "\<exists>p rid fid F.
           fst (remoteTorchscript dst qn fs stack t async w) = Inr p \<and>
           rrefs (snd (remoteTorchscript dst qn fs stack t async w)) p =
             Some (UserRRef (workerId info) rid fid (argType (returns fs ! 0)) (Some F)) \<and>
           (if transportStateAt (snd (remoteTorchscript dst qn fs stack t async w)) F =
                 Some Pending
            then pendingUsers (snd (remoteTorchscript dst qn fs stack t async w)) fid = Some p \<and>
                 count_list (emitted w (snd (remoteTorchscript dst qn fs stack t async w)))
                   (EvConfirmPendingUser fid) = 0 \<and>
                 fst (settleTransportFuture F st
                        (snd (remoteTorchscript dst qn fs stack t async w))) = Inr () \<and>
                 count_list
                   (emitted (snd (remoteTorchscript dst qn fs stack t async w))
                      (snd (settleTransportFuture F st
                              (snd (remoteTorchscript dst qn fs stack t async w)))))
                   (EvConfirmPendingUser fid) = 1 \<and>
                 pendingUsers (snd (settleTransportFuture F st
                    (snd (remoteTorchscript dst qn fs stack t async w)))) fid = None \<and>
                 confirmedUsers (snd (settleTransportFuture F st
                    (snd (remoteTorchscript dst qn fs stack t async w)))) =
                   (case st of Completed m d \<Rightarrow> insert fid (confirmedUsers w)
                    | _ \<Rightarrow> confirmedUsers w)
            else count_list (emitted w (snd (remoteTorchscript dst qn fs stack t async w)))
                   (EvConfirmPendingUser fid) = 1 \<and>
                 pendingUsers (snd (remoteTorchscript dst qn fs stack t async w)) fid = None \<and>
                 fst (settleTransportFuture F st
                        (snd (remoteTorchscript dst qn fs stack t async w))) =
                   Inl AlreadySettled \<and>
                 confirmedUsers (snd (remoteTorchscript dst qn fs stack t async w)) =
                   (case transportStateAt (snd (remoteTorchscript dst qn fs stack t async w)) F of
                      Some (Completed m d) \<Rightarrow> insert fid (confirmedUsers w)
                    | _ \<Rightarrow> confirmedUsers w))"
proof -
  let ?w1 = "snd (remoteTorchscript dst qn fs stack t async w)"
  let ?F = "Suc (nextPtr w)"
  let ?fid = "Suc (nextLocalId w)"
  let ?r = "transportReply w info (ScriptRemoteCallMessage
          (ScriptRemoteCall qn stack (nextLocalId w) (Suc (nextLocalId w)) async))"
  note rb = remote_branch [OF assms(1-3), of qn stack t async]
  show ?thesis
  proof (cases "?r = Pending")
    case True
    note pb = remote_branch_pending [OF assms(1-3) True, of t]
    note sc = settle_confirm [OF pb(1) pb(2) assms(4)]
    have ts: "transportStateAt ?w1 ?F = Some Pending"
      using pb(1) by (simp add: transportStateAt_def)
    show ?thesis
      apply (rule exI [of _ "nextPtr w"])
      apply (rule exI [of _ "nextLocalId w"])
      apply (rule exI [of _ ?fid])
      apply (rule exI [of _ ?F])
      apply (insert rb pb sc ts True)
      apply (simp split: fut_state.splits)
      done
  next
    case False
    note sb = remote_branch_settled [OF assms(1-3) refl False, of t]
    note ss = settle_settled [OF sb(1) False, of st]
    have ts: "transportStateAt ?w1 ?F = Some ?r"
      using sb(1) by (simp add: transportStateAt_def)
    show ?thesis
      apply (rule exI [of _ "nextPtr w"])
      apply (rule exI [of _ "nextLocalId w"])
      apply (rule exI [of _ ?fid])
      apply (rule exI [of _ ?F])
      apply (insert rb sb ss ts False)
      apply (simp split: fut_state.splits)
      done
  qed
qed

text \<open>
  The theorem at the call to worker \<open>B\<close>, whose future is pending at the return, settled
  with the response \<open>ResponseMessage [7]\<close>.
\<close>

theorem remoteTorchscript_confirms_fork_once_witness:
  "getWorkerInfo ''B'' exampleWorld = Inr (WorkerInfo ''B'' 1) \<and>
   length (returns intSchema) = 1 \<and>
   getWorkerId exampleWorld \<noteq> workerId (WorkerInfo ''B'' 1) \<and>
   Completed (ResponseMessage [7]) [] \<noteq> (Pending :: message fut_state) \<and>
   transportStateAt
     (snd (remoteTorchscript ''B'' ''m.f'' intSchema [IVInt 1] 5 False exampleWorld)) 1 =
     Some Pending \<and>
   (\<exists>p rid fid F.
           fst (remoteTorchscript ''B'' ''m.f'' intSchema [IVInt 1] 5 False exampleWorld) = Inr p \<and>
           rrefs (snd (remoteTorchscript ''B'' ''m.f'' intSchema [IVInt 1] 5 False exampleWorld)) p =
             Some (UserRRef (workerId (WorkerInfo ''B'' 1)) rid fid (argType (returns intSchema ! 0)) (Some F)) \<and>
           (if transportStateAt (snd (remoteTorchscript ''B'' ''m.f'' intSchema [IVInt 1] 5 False exampleWorld)) F =
                 Some Pending
            then pendingUsers (snd (remoteTorchscript ''B'' ''m.f'' intSchema [IVInt 1] 5 False exampleWorld)) fid = Some p \<and>
                 count_list (emitted exampleWorld (snd (remoteTorchscript ''B'' ''m.f'' intSchema [IVInt 1] 5 False exampleWorld)))
                   (EvConfirmPendingUser fid) = 0 \<and>
                 fst (settleTransportFuture F (Completed (ResponseMessage [7]) [])
                        (snd (remoteTorchscript ''B'' ''m.f'' intSchema [IVInt 1] 5 False exampleWorld))) = Inr () \<and>
                 count_list
                   (emitted (snd (remoteTorchscript ''B'' ''m.f'' intSchema [IVInt 1] 5 False exampleWorld))
                      (snd (settleTransportFuture F (Completed (ResponseMessage [7]) [])
                              (snd (remoteTorchscript ''B'' ''m.f'' intSchema [IVInt 1] 5 False exampleWorld)))))
                   (EvConfirmPendingUser fid) = 1 \<and>
                 pendingUsers (snd (settleTransportFuture F (Completed (ResponseMessage [7]) [])
                    (snd (remoteTorchscript ''B'' ''m.f'' intSchema [IVInt 1] 5 False exampleWorld)))) fid = None \<and>
                 confirmedUsers (snd (settleTransportFuture F (Completed (ResponseMessage [7]) [])
                    (snd (remoteTorchscript ''B'' ''m.f'' intSchema [IVInt 1] 5 False exampleWorld)))) =
                   (case (Completed (ResponseMessage [7]) []) of Completed m d \<Rightarrow> insert fid (confirmedUsers exampleWorld)
                    | _ \<Rightarrow> confirmedUsers exampleWorld)
            else count_list (emitted exampleWorld (snd (remoteTorchscript ''B'' ''m.f'' intSchema [IVInt 1] 5 False exampleWorld)))
                   (EvConfirmPendingUser fid) = 1 \<and>
                 pendingUsers (snd (remoteTorchscript ''B'' ''m.f'' intSchema [IVInt 1] 5 False exampleWorld)) fid = None \<and>
                 fst (settleTransportFuture F (Completed (ResponseMessage [7]) [])
                        (snd (remoteTorchscript ''B'' ''m.f'' intSchema [IVInt 1] 5 False exampleWorld))) =
                   Inl AlreadySettled \<and>
                 confirmedUsers (snd (remoteTorchscript ''B'' ''m.f'' intSchema [IVInt 1] 5 False exampleWorld)) =
                   (case transportStateAt (snd (remoteTorchscript ''B'' ''m.f'' intSchema [IVInt 1] 5 False exampleWorld)) F of
                      Some (Completed m d) \<Rightarrow> insert fid (confirmedUsers exampleWorld)
                    | _ \<Rightarrow> confirmedUsers exampleWorld)))"
proof -
  have st: "Completed (ResponseMessage [7]) [] \<noteq> (Pending :: message fut_state)"
    by simp
  have pend: "transportStateAt
     (snd (remoteTorchscript ''B'' ''m.f'' intSchema [IVInt 1] 5 False exampleWorld)) 1 =
     Some Pending"
    by (simp add: remoteTorchscript_def collaborator_defs example_defs transportStateAt_def
          Let_def)
  show ?thesis
    by (intro conjI example_resolves_B example_arity example_B_remote st pend
          remoteTorchscript_confirms_fork_once
            [OF example_resolves_B example_arity example_B_remote st])
qed

section \<open>Futures and their callbacks\<close>

text \<open>
  The callbacks of a typed future touch neither the heap of typed futures nor the heap
  of transport futures, and none of them fails on a null pointer.
\<close>

lemma runResultCallback_frame:
  assumes "runResultCallback p cb w = (r, w')"
  shows "resultFutures w' = resultFutures w"
    and "transportFutures w' = transportFutures w"
    and "r \<noteq> Inl NullPointerDereference"
  using assms
  by (auto simp: runResultCallback_def settleProfiled_def closeSpan_def logEvent_def
           split: result_callback.splits option.splits tensor.splits if_splits)

lemma runResultCallbacks_frame:
  assumes "runResultCallbacks p cbs w = (r, w')"
  shows "resultFutures w' = resultFutures w \<and> transportFutures w' = transportFutures w \<and>
         r \<noteq> Inl NullPointerDereference"
  using assms
proof (induction cbs arbitrary: w)
  case Nil
  then show ?case by auto
next
  case (Cons cb cbs)
  show ?case
  proof (cases "runResultCallback p cb w")
    case (Pair r1 w1)
    note f = runResultCallback_frame [OF Pair]
    show ?thesis
    proof (cases r1)
      case (Inl e)
      with Pair Cons.prems f show ?thesis by auto
    next
      case (Inr u)
      with Pair Cons.prems have "runResultCallbacks p cbs w1 = (r, w')" by simp
      from Cons.IH [OF this] f show ?thesis by simp
    qed
  qed
qed

lemma settleResult_frame:
  assumes "settleResult p st w = (r, w')"
  shows "transportFutures w' = transportFutures w" and "r \<noteq> Inl NullPointerDereference"
  using assms
  by (auto simp: settleResult_def split: option.splits if_splits dest: runResultCallbacks_frame)

text \<open>
  A callback of the transport future whose future is in the heap gets a pointer from
  \<^verbatim>\<open>wp.lock()\<close>; one whose future is gone dereferences the null pointer.
\<close>

lemma runTransportCallback_alive:
  assumes "transportFutures w (weakHandle cb) = Some f"
  shows "fst (runTransportCallback cb w) \<noteq> Inl NullPointerDereference"
proof (cases cb)
  case (BridgeToJitFuture futPtr wp)
  have "fst (settleResult futPtr s w) \<noteq> Inl NullPointerDereference" for s
    using settleResult_frame(2) [of futPtr s w] by (cases "settleResult futPtr s w") simp
  with assms BridgeToJitFuture show ?thesis
    by (simp add: runTransportCallback_def setError_def markCompleted_def
          deserializeRespToIValue_def split: fut_state.splits option.splits)
next
  case (ConfirmPendingUser wp fid)
  with assms show ?thesis
    by (simp add: runTransportCallback_def confirmPendingUser_def Let_def
          split: fut_state.splits)
next
  case (FinishCreatingOwnerRRef wp rid)
  with assms show ?thesis
    by (simp add: runTransportCallback_def finishCreatingOwnerRRef_def Let_def
          split: fut_state.splits)
qed

lemma runTransportCallback_destroyed:
  "runTransportCallback cb (destroyFuture (weakHandle cb) w) =
     (Inl NullPointerDereference, destroyFuture (weakHandle cb) w)"
  by (cases cb) (simp_all add: runTransportCallback_def destroyFuture_def)

text \<open>Every callback the reference call registers holds the future it is registered on.\<close>

lemma remoteTorchscript_callbacks:
  assumes "EvAddCallback p cb \<in> set (emitted w (snd (remoteTorchscript dst qn fs stack t async w)))"
  shows "weakHandle cb = p"
proof (cases "getWorkerInfo dst w")
  case (Inl e)
  with assms show ?thesis by (simp add: remoteTorchscript_def emitted_def)
next
  case (Inr info)
  show ?thesis
  proof (cases "length (returns fs) = 1")
    case False
    with assms Inr show ?thesis by (simp add: remoteTorchscript_def emitted_def)
  next
    case True
    show ?thesis
    proof (cases "getWorkerId w = workerId info")
      case loc: True
      from assms local_branch(2) [OF Inr True loc, of qn stack t async] show ?thesis
        by (auto split: if_splits)
    next
      case rem: False
      from assms remote_branch(2) [OF Inr True rem, of qn stack t async] show ?thesis
        by (auto split: if_splits)
    qed
  qed
qed

section \<open>The plain call\<close>

text \<open>
  The plain call, run symbolically: without profiling and with profiling, for every
  state the transport future can have when the callback is registered.
\<close>

lemma rpc_unresolved:
  assumes "getWorkerInfo dst w = Inl e"
  shows "EvAddCallback p cb \<notin> set (emitted w (snd (rpcTorchscript dst qn fs stack t async w)))"
    and "fst (rpcTorchscript dst qn fs stack t async w) = Inl e"
  using assms
  by (auto simp: rpcTorchscript_def profiler_defs logEvent_def emitted_def getWorkerInfo_def
        Let_def split: option.splits)

lemma rpc_bad_arity:
  assumes "getWorkerInfo dst w = Inr info" and "length (returns fs) \<noteq> 1"
  shows "EvAddCallback p cb \<notin> set (emitted w (snd (rpcTorchscript dst qn fs stack t async w)))"
  using assms
  by (auto simp: rpcTorchscript_def collaborator_defs profiler_defs Let_def split: prod.splits)

lemma rpc_plain:
  fixes w dst qn fs stack t async info
  defines "w1 \<equiv> snd (rpcTorchscript dst qn fs stack t async w)"
    and "F \<equiv> nextPtr w" and "R \<equiv> Suc (nextPtr w)"
    and "reply \<equiv> transportReply w info (ScriptCallMessage (ScriptCall qn stack async))"
  assumes "getWorkerInfo dst w = Inr info" and "length (returns fs) = 1"
    and "\<not> (profilerEnabled w \<and> \<not> isCurrentKeySet w)"
  shows "emitted w w1 =
           [EvSend info (ScriptCallMessage (ScriptCall qn stack async)) True t,
            EvCreateInstance (argType (returns fs ! 0)),
            EvAddCallback F (BridgeToJitFuture R F)]"
    and "transportFutures w1 F =
           Some \<lparr>state = reply,
                 callbacks = (if reply = Pending then [BridgeToJitFuture R F] else [])\<rparr>"
    and "resultFutures w1 R =
           Some \<lparr>elementType = argType (returns fs ! 0),
                 resultState =
                   (case reply of Pending \<Rightarrow> Pending | Failed e \<Rightarrow> Failed e
                    | Completed m d \<Rightarrow>
                        (case decodeResp w m of Some v \<Rightarrow> Completed v d | None \<Rightarrow> Pending)),
                 resultCallbacks = []\<rparr>"
    and "fst (rpcTorchscript dst qn fs stack t async w) =
           (case reply of
              Completed m d \<Rightarrow>
                (case decodeResp w m of None \<Rightarrow> Inl DecodeError | Some v \<Rightarrow> Inr R)
            | _ \<Rightarrow> Inr R)"
    and "openSpans w1 = openSpans w" and "profiledFutures w1 = profiledFutures w"
    and "decodeResp w1 = decodeResp w"
  using assms(5-7) unfolding w1_def F_def R_def reply_def
  by (auto simp: rpcTorchscript_def collaborator_defs profiler_defs future_defs Let_def
           split: fut_state.splits option.splits)

lemma rpc_prof:
  fixes w dst qn fs stack t async info
  defines "w1 \<equiv> snd (rpcTorchscript dst qn fs stack t async w)"
    and "h \<equiv> nextPtr w" and "F \<equiv> Suc (nextPtr w)" and "R \<equiv> Suc (Suc (nextPtr w))"
    and "P \<equiv> Suc (Suc (Suc (nextPtr w)))"
    and "key \<equiv> rpcAsyncJitKeyOf qn (workerName (agentWorkerInfo w)) dst"
    and "reply \<equiv> transportReply w info (ScriptCallMessage (ScriptCall qn stack async))"
  assumes "getWorkerInfo dst w = Inr info" and "length (returns fs) = 1"
    and "profilerEnabled w \<and> \<not> isCurrentKeySet w"
  shows "emitted w w1 =
           [EvRecordFunctionEnter key, EvSetCurrentKey key,
            EvSend info (ScriptCallMessage (ScriptCall qn stack async)) True t,
            EvCreateInstance (argType (returns fs ! 0)),
            EvAddCallback F (BridgeToJitFuture R F)]
           @ (case reply of
                Pending \<Rightarrow> [EvCallEndCallbacksOnFut (RecordFunctionHandle h) R]
              | Failed e \<Rightarrow> [EvCallEndCallbacksOnFut (RecordFunctionHandle h) R,
                             EvCloseSpan (RecordFunctionHandle h)]
              | Completed m d \<Rightarrow>
                  (case decodeResp w m of
                     None \<Rightarrow> []
                   | Some v \<Rightarrow> [EvCallEndCallbacksOnFut (RecordFunctionHandle h) R,
                                 EvCloseSpan (RecordFunctionHandle h)]))"
    and "transportFutures w1 F =
           Some \<lparr>state = reply,
                 callbacks = (if reply = Pending then [BridgeToJitFuture R F] else [])\<rparr>"
    and "resultFutures w1 R =
           Some \<lparr>elementType = argType (returns fs ! 0),
                 resultState =
                   (case reply of Pending \<Rightarrow> Pending | Failed e \<Rightarrow> Failed e
                    | Completed m d \<Rightarrow>
                        (case decodeResp w m of Some v \<Rightarrow> Completed v d | None \<Rightarrow> Pending)),
                 resultCallbacks =
                   (if reply = Pending then [EndCallbacks (RecordFunctionHandle h) P] else [])\<rparr>"
    and "fst (rpcTorchscript dst qn fs stack t async w) =
           (case reply of
              Completed m d \<Rightarrow>
                (case decodeResp w m of None \<Rightarrow> Inl DecodeError | Some v \<Rightarrow> Inr P)
            | _ \<Rightarrow> Inr P)"
    and "case reply of
           Pending \<Rightarrow> openSpans w1 h = Some key \<and> profiledFutures w1 P = Some Pending
         | Failed e \<Rightarrow> openSpans w1 h = None \<and> profiledFutures w1 P = Some (Failed e)
         | Completed m d \<Rightarrow>
             (case decodeResp w m of
                None \<Rightarrow> True
              | Some v \<Rightarrow> openSpans w1 h = None \<and> profiledFutures w1 P = Some (Completed v d))"
    and "decodeResp w1 = decodeResp w"
  using assms(8-10) unfolding w1_def h_def F_def R_def P_def key_def reply_def
  by (auto simp: rpcTorchscript_def collaborator_defs profiler_defs future_defs Let_def
           split: fut_state.splits option.splits)

text \<open>The settlement of the transport future completes the typed future.\<close>

lemma settleResult_state:
  assumes "resultFutures w p = Some r" and "resultState r = Pending"
  shows "resultStateAt (snd (settleResult p st w)) p = Some st"
proof -
  let ?w = "w\<lparr>resultFutures := (resultFutures w)
                (p \<mapsto> r\<lparr>resultState := st, resultCallbacks := []\<rparr>)\<rparr>"
  obtain x w' where run: "runResultCallbacks p (resultCallbacks r) ?w = (x, w')"
    by (cases "runResultCallbacks p (resultCallbacks r) ?w")
  from runResultCallbacks_frame [OF run] have "resultFutures w' = resultFutures ?w"
    by simp
  with assms run show ?thesis
    by (simp add: settleResult_def resultStateAt_def)
qed

lemma settle_bridge:
  assumes "transportFutures w1 F = Some \<lparr>state = Pending, callbacks = [BridgeToJitFuture R F]\<rparr>"
    and "resultFutures w1 R = Some r" and "resultState r = Pending"
  shows "resultStateAt (snd (settleTransportFuture F (Failed e) w1)) R = Some (Failed e)"
    and "decodeResp w1 m = Some v \<Longrightarrow>
         resultStateAt (snd (settleTransportFuture F (Completed m d) w1)) R =
           Some (Completed v d)"
proof -
  have one: "snd (runTransportCallbacks [cb] w) = snd (runTransportCallback cb w)" for cb w
    by (simp split: prod.splits sum.splits)
  let ?w = "\<lambda>st. w1\<lparr>transportFutures := (transportFutures w1)
                (F \<mapsto> \<lparr>state = st, callbacks = []\<rparr>)\<rparr>"
  have rf: "resultFutures (?w st) R = Some r" for st
    using assms(2) by simp
  show "resultStateAt (snd (settleTransportFuture F (Failed e) w1)) R = Some (Failed e)"
    using assms(1) settleResult_state [OF rf [of "Failed e"] assms(3), of "Failed e"]
    by (simp add: settleTransportFuture_def one runTransportCallback_def setError_def
          del: runTransportCallbacks.simps)
  show "resultStateAt (snd (settleTransportFuture F (Completed m d) w1)) R =
           Some (Completed v d)" if "decodeResp w1 m = Some v"
    using that assms(1) settleResult_state [OF rf [of "Completed m d"] assms(3), of "Completed v d"]
    by (simp add: settleTransportFuture_def one runTransportCallback_def markCompleted_def
          deserializeRespToIValue_def del: runTransportCallbacks.simps)
qed

lemma settleResult_wrapped:
  assumes "resultFutures w1 R =
             Some \<lparr>elementType = ty, resultState = Pending,
                   resultCallbacks = [EndCallbacks (RecordFunctionHandle h) P]\<rparr>"
    and "profiledFutures w1 P = Some Pending"
  shows "fst (settleResult R st w1) = Inr ()"
    and "openSpans (snd (settleResult R st w1)) h = None"
    and "profiledFutures (snd (settleResult R st w1)) P = Some st"
    and "emitted w1 (snd (settleResult R st w1)) = [EvCloseSpan (RecordFunctionHandle h)]"
  using assms by (simp_all add: future_defs logEvent_def emitted_def)

lemma settle_bridge_at:
  assumes "transportFutures w1 F = Some \<lparr>state = Pending, callbacks = [BridgeToJitFuture R F]\<rparr>"
    and "resultStateAt w1 R = Some Pending"
  shows "resultStateAt (snd (settleTransportFuture F (Failed e) w1)) R = Some (Failed e)"
    and "decodeResp w1 m = Some v \<Longrightarrow>
         resultStateAt (snd (settleTransportFuture F (Completed m d) w1)) R =
           Some (Completed v d)"
proof -
  from assms(2) obtain r where r: "resultFutures w1 R = Some r" "resultState r = Pending"
    by (auto simp: resultStateAt_def)
  show "resultStateAt (snd (settleTransportFuture F (Failed e) w1)) R = Some (Failed e)"
    by (rule settle_bridge(1) [OF assms(1) r])
  show "resultStateAt (snd (settleTransportFuture F (Completed m d) w1)) R =
           Some (Completed v d)" if "decodeResp w1 m = Some v"
    by (rule settle_bridge(2) [OF assms(1) r that])
qed

text \<open>
  A payload that does not decode: the exception of the decoder leaves the callback, the
  settlement of the transport future ends with it, and the typed future stays as it was.
\<close>

lemma settle_bridge_undecodable:
  assumes "transportFutures w1 F = Some \<lparr>state = Pending, callbacks = [BridgeToJitFuture R F]\<rparr>"
    and "decodeResp w1 m = None"
  shows "fst (settleTransportFuture F (Completed m d) w1) = Inl DecodeError"
    and "resultStateAt (snd (settleTransportFuture F (Completed m d) w1)) R = resultStateAt w1 R"
    and "transportStateAt (snd (settleTransportFuture F (Completed m d) w1)) F =
           Some (Completed m d)"
  using assms
  by (simp_all add: settleTransportFuture_def runTransportCallback_def
        deserializeRespToIValue_def resultStateAt_def transportStateAt_def)

lemma settle_bridge_cases:
  assumes "transportFutures w1 F = Some \<lparr>state = Pending, callbacks = [BridgeToJitFuture R F]\<rparr>"
    and "resultStateAt w1 R = Some Pending"
  shows "case decodeResp w1 m of
           Some v \<Rightarrow>
             resultStateAt (snd (settleTransportFuture F (Completed m d) w1)) R =
               Some (Completed v d)
         | None \<Rightarrow>
             fst (settleTransportFuture F (Completed m d) w1) = Inl DecodeError \<and>
             resultStateAt (snd (settleTransportFuture F (Completed m d) w1)) R = Some Pending"
proof (cases "decodeResp w1 m")
  case None
  from settle_bridge_undecodable(1,2) [OF assms(1) None, of d] assms(2) None show ?thesis
    by simp
next
  case (Some v)
  from settle_bridge_at(2) [OF assms Some, of d] Some show ?thesis
    by simp
qed

text \<open>Every callback the plain call registers holds the future it is registered on.\<close>

lemma rpcTorchscript_callbacks:
  assumes "EvAddCallback p cb \<in> set (emitted w (snd (rpcTorchscript dst qn fs stack t async w)))"
  shows "weakHandle cb = p"
proof (cases "getWorkerInfo dst w")
  case (Inl e)
  with assms rpc_unresolved(1) show ?thesis by blast
next
  case (Inr info)
  show ?thesis
  proof (cases "length (returns fs) = 1")
    case False
    with assms rpc_bad_arity [OF Inr] show ?thesis by blast
  next
    case True
    show ?thesis
    proof (cases "profilerEnabled w \<and> \<not> isCurrentKeySet w")
      case prof: True
      from assms rpc_prof(1) [OF Inr True prof, where qn = qn and stack = stack and t = t
                 and async = async]
      show ?thesis by (auto split: fut_state.splits option.splits)
    next
      case plain: False
      from assms rpc_plain(1) [OF Inr True plain, where qn = qn and stack = stack and t = t
                 and async = async]
      show ?thesis by auto
    qed
  qed
qed

text \<open>
  C5, as stated, fails: a transport future that settles successfully with a payload
  that does not decode does not complete the typed future. The plain call to worker
  \<open>B\<close> registers the bridging callback on future 0, with the typed future 1; the
  transport settles future 0 with the payload \<open>ResponseMessage []\<close>, which the decoder
  refuses: future 0 is completed, the settlement ends with \<open>DecodeError\<close>, and
  future 1 is still pending.
\<close>

theorem rpcTorchscript_undecodable_payload_counterexample:
  "EvAddCallback 0 (BridgeToJitFuture 1 0) \<in> set (emitted exampleWorld (snd (rpcTorchscript ''B'' ''m.f'' intSchema [IVInt 1] 5 False exampleWorld))) \<and>
   transportStateAt (snd (rpcTorchscript ''B'' ''m.f'' intSchema [IVInt 1] 5 False exampleWorld)) 0 = Some Pending \<and>
   resultStateAt (snd (rpcTorchscript ''B'' ''m.f'' intSchema [IVInt 1] 5 False exampleWorld)) 1 = Some Pending \<and>
   transportStateAt (snd (settleTransportFuture 0 (Completed (ResponseMessage []) [3]) (snd (rpcTorchscript ''B'' ''m.f'' intSchema [IVInt 1] 5 False exampleWorld)))) 0 =
     Some (Completed (ResponseMessage []) [3]) \<and>
   fst (settleTransportFuture 0 (Completed (ResponseMessage []) [3]) (snd (rpcTorchscript ''B'' ''m.f'' intSchema [IVInt 1] 5 False exampleWorld))) = Inl DecodeError \<and>
   resultStateAt (snd (settleTransportFuture 0 (Completed (ResponseMessage []) [3]) (snd (rpcTorchscript ''B'' ''m.f'' intSchema [IVInt 1] 5 False exampleWorld)))) 1 =
     Some Pending"
  by (simp add: rpcTorchscript_def collaborator_defs profiler_defs future_defs example_defs
        transportStateAt_def resultStateAt_def Let_def)

text \<open>
  C5, amended. The plain call registers on the transport future \<open>F\<close> a callback that
  bridges to the typed future \<open>R\<close>, a future of the declared return type. When
  \<open>F\<close> is pending at the return of the call, so is \<open>R\<close>; the settlement of
  \<open>F\<close> with an error \<open>e\<close> fails \<open>R\<close> with \<open>e\<close>; the settlement of \<open>F\<close>
  with a payload \<open>m\<close> and data pointers \<open>d\<close> completes \<open>R\<close> with the decoded
  value and \<open>d\<close> when \<open>m\<close> decodes, and when \<open>m\<close> does not decode it ends with
  \<open>DecodeError\<close> and leaves \<open>R\<close> pending. When \<open>F\<close> was settled by the time the
  callback was registered, the callback has run at once, with the same outcome for
  \<open>R\<close>; there the exception of the decoder leaves the call.
\<close>

theorem rpcTorchscript_bridges_transport_future:
  assumes "getWorkerInfo dst w = Inr info" and "length (returns fs) = 1"
  shows "\<exists>F R.
     EvAddCallback F (BridgeToJitFuture R F) \<in> set (emitted w (snd (rpcTorchscript dst qn fs stack t async w))) \<and>
     map_option elementType (resultFutures (snd (rpcTorchscript dst qn fs stack t async w)) R) = Some (argType (returns fs ! 0)) \<and>
     (case transportStateAt (snd (rpcTorchscript dst qn fs stack t async w)) F of
        None \<Rightarrow> False
      | Some Pending \<Rightarrow>
          resultStateAt (snd (rpcTorchscript dst qn fs stack t async w)) R = Some Pending \<and>
          resultStateAt (snd (settleTransportFuture F (Failed e) (snd (rpcTorchscript dst qn fs stack t async w)))) R =
            Some (Failed e) \<and>
          (case decodeResp w m of
             Some v \<Rightarrow>
               resultStateAt (snd (settleTransportFuture F (Completed m d) (snd (rpcTorchscript dst qn fs stack t async w)))) R =
                 Some (Completed v d)
           | None \<Rightarrow>
               fst (settleTransportFuture F (Completed m d) (snd (rpcTorchscript dst qn fs stack t async w))) = Inl DecodeError \<and>
               resultStateAt (snd (settleTransportFuture F (Completed m d) (snd (rpcTorchscript dst qn fs stack t async w)))) R =
                 Some Pending)
      | Some (Failed e') \<Rightarrow> resultStateAt (snd (rpcTorchscript dst qn fs stack t async w)) R = Some (Failed e')
      | Some (Completed m' d') \<Rightarrow>
          (case decodeResp w m' of
             Some v' \<Rightarrow> resultStateAt (snd (rpcTorchscript dst qn fs stack t async w)) R = Some (Completed v' d')
           | None \<Rightarrow> fst (rpcTorchscript dst qn fs stack t async w) = Inl DecodeError \<and> resultStateAt (snd (rpcTorchscript dst qn fs stack t async w)) R = Some Pending))"
proof -
  let ?w1 = "snd (rpcTorchscript dst qn fs stack t async w)"
  let ?reply = "transportReply w info (ScriptCallMessage (ScriptCall qn stack async))"
  show ?thesis
  proof (cases "profilerEnabled w \<and> \<not> isCurrentKeySet w")
    case prof: True
    note f = rpc_prof [OF assms(1,2) prof, where qn = qn and stack = stack and t = t
                 and async = async]
    let ?F = "Suc (nextPtr w)"
    let ?R = "Suc (Suc (nextPtr w))"
    show ?thesis
    proof (cases "?reply = Pending")
      case True
      have tf: "transportFutures ?w1 ?F =
                  Some \<lparr>state = Pending, callbacks = [BridgeToJitFuture ?R ?F]\<rparr>"
        using f(2) True by simp
      have rs: "resultStateAt ?w1 ?R = Some Pending"
        using f(3) True by (simp add: resultStateAt_def)
      note sf = settle_bridge_at(1) [OF tf rs, of e]
      have sc: "case decodeResp w m of
           Some v \<Rightarrow>
             resultStateAt (snd (settleTransportFuture ?F (Completed m d) ?w1)) ?R =
               Some (Completed v d)
         | None \<Rightarrow>
             fst (settleTransportFuture ?F (Completed m d) ?w1) = Inl DecodeError \<and>
             resultStateAt (snd (settleTransportFuture ?F (Completed m d) ?w1)) ?R =
               Some Pending"
        using settle_bridge_cases [OF tf rs, of m d] f(6) by simp
      show ?thesis
        apply (rule exI [of _ ?F])
        apply (rule exI [of _ ?R])
        apply (insert f(1) f(3) tf rs sf sc True)
        apply (simp add: transportStateAt_def)
        done
    next
      case False
      show ?thesis
        apply (rule exI [of _ ?F])
        apply (rule exI [of _ ?R])
        apply (insert f False)
        apply (auto simp: transportStateAt_def resultStateAt_def
                 split: fut_state.splits option.splits)
        done
    qed
  next
    case plain: False
    note f = rpc_plain [OF assms(1,2) plain, where qn = qn and stack = stack and t = t
                 and async = async]
    let ?F = "nextPtr w"
    let ?R = "Suc (nextPtr w)"
    show ?thesis
    proof (cases "?reply = Pending")
      case True
      have tf: "transportFutures ?w1 ?F =
                  Some \<lparr>state = Pending, callbacks = [BridgeToJitFuture ?R ?F]\<rparr>"
        using f(2) True by simp
      have rs: "resultStateAt ?w1 ?R = Some Pending"
        using f(3) True by (simp add: resultStateAt_def)
      note sf = settle_bridge_at(1) [OF tf rs, of e]
      have sc: "case decodeResp w m of
           Some v \<Rightarrow>
             resultStateAt (snd (settleTransportFuture ?F (Completed m d) ?w1)) ?R =
               Some (Completed v d)
         | None \<Rightarrow>
             fst (settleTransportFuture ?F (Completed m d) ?w1) = Inl DecodeError \<and>
             resultStateAt (snd (settleTransportFuture ?F (Completed m d) ?w1)) ?R =
               Some Pending"
        using settle_bridge_cases [OF tf rs, of m d] f(7) by simp
      show ?thesis
        apply (rule exI [of _ ?F])
        apply (rule exI [of _ ?R])
        apply (insert f(1) f(3) tf rs sf sc True)
        apply (simp add: transportStateAt_def)
        done
    next
      case False
      show ?thesis
        apply (rule exI [of _ ?F])
        apply (rule exI [of _ ?R])
        apply (insert f False)
        apply (auto simp: transportStateAt_def resultStateAt_def
                 split: fut_state.splits option.splits)
        done
    qed
  qed
qed

lemma example_decodes: "decodeResp exampleWorld (ResponseMessage [7]) = Some (IVInt 7)"
  by (simp add: example_defs)

text \<open>
  The theorem at the call to worker \<open>B\<close>, whose transport future is pending at the
  return, with the payload \<open>ResponseMessage [7]\<close>, which decodes to \<open>IVInt 7\<close>, and
  with the payload \<open>ResponseMessage []\<close>, which does not decode.
\<close>

theorem rpcTorchscript_bridges_transport_future_witness:
  "getWorkerInfo ''B'' exampleWorld = Inr (WorkerInfo ''B'' 1) \<and>
   length (returns intSchema) = 1 \<and>
   transportStateAt
     (snd (rpcTorchscript ''B'' ''m.f'' intSchema [IVInt 1] 5 False exampleWorld)) 0 =
     Some Pending \<and>
   decodeResp exampleWorld (ResponseMessage [7]) = Some (IVInt 7) \<and>
   decodeResp exampleWorld (ResponseMessage []) = None \<and>
   (\<exists>F R.
     EvAddCallback F (BridgeToJitFuture R F) \<in> set (emitted exampleWorld (snd (rpcTorchscript ''B'' ''m.f'' intSchema [IVInt 1] 5 False exampleWorld))) \<and>
     map_option elementType (resultFutures (snd (rpcTorchscript ''B'' ''m.f'' intSchema [IVInt 1] 5 False exampleWorld)) R) = Some (argType (returns intSchema ! 0)) \<and>
     (case transportStateAt (snd (rpcTorchscript ''B'' ''m.f'' intSchema [IVInt 1] 5 False exampleWorld)) F of
        None \<Rightarrow> False
      | Some Pending \<Rightarrow>
          resultStateAt (snd (rpcTorchscript ''B'' ''m.f'' intSchema [IVInt 1] 5 False exampleWorld)) R = Some Pending \<and>
          resultStateAt (snd (settleTransportFuture F (Failed (TransportFailure ''timeout'')) (snd (rpcTorchscript ''B'' ''m.f'' intSchema [IVInt 1] 5 False exampleWorld)))) R =
            Some (Failed (TransportFailure ''timeout'')) \<and>
          (case decodeResp exampleWorld (ResponseMessage [7]) of
             Some v \<Rightarrow>
               resultStateAt (snd (settleTransportFuture F (Completed (ResponseMessage [7]) [3]) (snd (rpcTorchscript ''B'' ''m.f'' intSchema [IVInt 1] 5 False exampleWorld)))) R =
                 Some (Completed v [3])
           | None \<Rightarrow>
               fst (settleTransportFuture F (Completed (ResponseMessage [7]) [3]) (snd (rpcTorchscript ''B'' ''m.f'' intSchema [IVInt 1] 5 False exampleWorld))) = Inl DecodeError \<and>
               resultStateAt (snd (settleTransportFuture F (Completed (ResponseMessage [7]) [3]) (snd (rpcTorchscript ''B'' ''m.f'' intSchema [IVInt 1] 5 False exampleWorld)))) R =
                 Some Pending)
      | Some (Failed e') \<Rightarrow> resultStateAt (snd (rpcTorchscript ''B'' ''m.f'' intSchema [IVInt 1] 5 False exampleWorld)) R = Some (Failed e')
      | Some (Completed m' d') \<Rightarrow>
          (case decodeResp exampleWorld m' of
             Some v' \<Rightarrow> resultStateAt (snd (rpcTorchscript ''B'' ''m.f'' intSchema [IVInt 1] 5 False exampleWorld)) R = Some (Completed v' d')
           | None \<Rightarrow> fst (rpcTorchscript ''B'' ''m.f'' intSchema [IVInt 1] 5 False exampleWorld) = Inl DecodeError \<and> resultStateAt (snd (rpcTorchscript ''B'' ''m.f'' intSchema [IVInt 1] 5 False exampleWorld)) R = Some Pending))) \<and>
   (\<exists>F R.
     EvAddCallback F (BridgeToJitFuture R F) \<in> set (emitted exampleWorld (snd (rpcTorchscript ''B'' ''m.f'' intSchema [IVInt 1] 5 False exampleWorld))) \<and>
     map_option elementType (resultFutures (snd (rpcTorchscript ''B'' ''m.f'' intSchema [IVInt 1] 5 False exampleWorld)) R) = Some (argType (returns intSchema ! 0)) \<and>
     (case transportStateAt (snd (rpcTorchscript ''B'' ''m.f'' intSchema [IVInt 1] 5 False exampleWorld)) F of
        None \<Rightarrow> False
      | Some Pending \<Rightarrow>
          resultStateAt (snd (rpcTorchscript ''B'' ''m.f'' intSchema [IVInt 1] 5 False exampleWorld)) R = Some Pending \<and>
          resultStateAt (snd (settleTransportFuture F (Failed (TransportFailure ''timeout'')) (snd (rpcTorchscript ''B'' ''m.f'' intSchema [IVInt 1] 5 False exampleWorld)))) R =
            Some (Failed (TransportFailure ''timeout'')) \<and>
          (case decodeResp exampleWorld (ResponseMessage []) of
             Some v \<Rightarrow>
               resultStateAt (snd (settleTransportFuture F (Completed (ResponseMessage []) [3]) (snd (rpcTorchscript ''B'' ''m.f'' intSchema [IVInt 1] 5 False exampleWorld)))) R =
                 Some (Completed v [3])
           | None \<Rightarrow>
               fst (settleTransportFuture F (Completed (ResponseMessage []) [3]) (snd (rpcTorchscript ''B'' ''m.f'' intSchema [IVInt 1] 5 False exampleWorld))) = Inl DecodeError \<and>
               resultStateAt (snd (settleTransportFuture F (Completed (ResponseMessage []) [3]) (snd (rpcTorchscript ''B'' ''m.f'' intSchema [IVInt 1] 5 False exampleWorld)))) R =
                 Some Pending)
      | Some (Failed e') \<Rightarrow> resultStateAt (snd (rpcTorchscript ''B'' ''m.f'' intSchema [IVInt 1] 5 False exampleWorld)) R = Some (Failed e')
      | Some (Completed m' d') \<Rightarrow>
          (case decodeResp exampleWorld m' of
             Some v' \<Rightarrow> resultStateAt (snd (rpcTorchscript ''B'' ''m.f'' intSchema [IVInt 1] 5 False exampleWorld)) R = Some (Completed v' d')
           | None \<Rightarrow> fst (rpcTorchscript ''B'' ''m.f'' intSchema [IVInt 1] 5 False exampleWorld) = Inl DecodeError \<and> resultStateAt (snd (rpcTorchscript ''B'' ''m.f'' intSchema [IVInt 1] 5 False exampleWorld)) R = Some Pending)))"
proof -
  have pend: "transportStateAt
     (snd (rpcTorchscript ''B'' ''m.f'' intSchema [IVInt 1] 5 False exampleWorld)) 0 =
     Some Pending"
    by (simp add: rpcTorchscript_def collaborator_defs profiler_defs future_defs example_defs
          transportStateAt_def Let_def)
  have bad: "decodeResp exampleWorld (ResponseMessage []) = None"
    by (simp add: example_defs)
  show ?thesis
    by (intro conjI example_resolves_B example_arity example_decodes pend bad
          rpcTorchscript_bridges_transport_future [OF example_resolves_B example_arity])
qed

text \<open>
  C9. A plain call that returns a future returns the wrapped future when it has opened
  a span at entry (the profiler is enabled and no key is set), and the typed future
  \<open>R\<close> itself when it has not. The span is opened before anything else; the wrapped
  future is another future than \<open>R\<close>; while \<open>R\<close> is pending the span is open and
  the wrapped future is pending, and the settlement of \<open>R\<close> with \<open>st\<close> closes the
  span and settles the wrapped future with \<open>st\<close>; when \<open>R\<close> was settled inside the
  call, the span is closed and the wrapped future settled at the return. Without a span,
  the future returned is the one the bridging callback completes, no span is opened and
  no wrapped future is made.
\<close>

theorem rpcTorchscript_returns_wrapped_future_when_profiling:
  assumes "fst (rpcTorchscript dst qn fs stack t async w) = Inr ret" and "st \<noteq> Pending"
  shows "if profilerEnabled w \<and> \<not> isCurrentKeySet w
   then \<exists>h R key.
          take 1 (emitted w (snd (rpcTorchscript dst qn fs stack t async w))) = [EvRecordFunctionEnter key] \<and>
          EvCallEndCallbacksOnFut (RecordFunctionHandle h) R \<in> set (emitted w (snd (rpcTorchscript dst qn fs stack t async w))) \<and>
          (\<exists>F. EvAddCallback F (BridgeToJitFuture R F) \<in> set (emitted w (snd (rpcTorchscript dst qn fs stack t async w)))) \<and>
          ret \<noteq> R \<and>
          (case resultStateAt (snd (rpcTorchscript dst qn fs stack t async w)) R of
             None \<Rightarrow> False
           | Some Pending \<Rightarrow>
               openSpans (snd (rpcTorchscript dst qn fs stack t async w)) h = Some key \<and>
               profiledFutures (snd (rpcTorchscript dst qn fs stack t async w)) ret = Some Pending \<and>
               fst (settleResult R st (snd (rpcTorchscript dst qn fs stack t async w))) = Inr () \<and>
               openSpans (snd (settleResult R st (snd (rpcTorchscript dst qn fs stack t async w)))) h = None \<and>
               profiledFutures (snd (settleResult R st (snd (rpcTorchscript dst qn fs stack t async w)))) ret = Some st \<and>
               emitted (snd (rpcTorchscript dst qn fs stack t async w)) (snd (settleResult R st (snd (rpcTorchscript dst qn fs stack t async w)))) =
                 [EvCloseSpan (RecordFunctionHandle h)]
           | Some s \<Rightarrow>
               openSpans (snd (rpcTorchscript dst qn fs stack t async w)) h = None \<and>
               profiledFutures (snd (rpcTorchscript dst qn fs stack t async w)) ret = Some s \<and>
               EvCloseSpan (RecordFunctionHandle h) \<in> set (emitted w (snd (rpcTorchscript dst qn fs stack t async w))))
   else (\<exists>F. EvAddCallback F (BridgeToJitFuture ret F) \<in> set (emitted w (snd (rpcTorchscript dst qn fs stack t async w)))) \<and>
        map_option elementType (resultFutures (snd (rpcTorchscript dst qn fs stack t async w)) ret) = Some (argType (returns fs ! 0)) \<and>
        openSpans (snd (rpcTorchscript dst qn fs stack t async w)) = openSpans w \<and>
        profiledFutures (snd (rpcTorchscript dst qn fs stack t async w)) = profiledFutures w \<and>
        (\<forall>k. EvRecordFunctionEnter k \<notin> set (emitted w (snd (rpcTorchscript dst qn fs stack t async w))))"
proof -
  let ?w1 = "snd (rpcTorchscript dst qn fs stack t async w)"
  obtain info where res: "getWorkerInfo dst w = Inr info"
    using assms(1) rpc_unresolved(2) [of dst w _ qn fs stack t async]
    by (cases "getWorkerInfo dst w") auto
  let ?reply = "transportReply w info (ScriptCallMessage (ScriptCall qn stack async))"
  have ar: "length (returns fs) = 1"
    using assms(1) rpcTorchscript_arity_check_after_send(1) [OF res, of fs qn stack t async]
    by auto
  show ?thesis
  proof (cases "profilerEnabled w \<and> \<not> isCurrentKeySet w")
    case prof: True
    note f = rpc_prof [OF res ar prof, where qn = qn and stack = stack and t = t
                 and async = async]
    let ?h = "nextPtr w"
    let ?R = "Suc (Suc (nextPtr w))"
    let ?P = "Suc (Suc (Suc (nextPtr w)))"
    let ?key = "rpcAsyncJitKeyOf qn (workerName (agentWorkerInfo w)) dst"
    have ret: "ret = ?P"
      using f(4) assms(1) by (auto split: fut_state.splits option.splits)
    show ?thesis
    proof (cases "?reply = Pending")
      case True
      have rf: "resultFutures ?w1 ?R =
                  Some \<lparr>elementType = argType (returns fs ! 0), resultState = Pending,
                        resultCallbacks = [EndCallbacks (RecordFunctionHandle ?h) ?P]\<rparr>"
        using f(3) True by simp
      have pf: "profiledFutures ?w1 ?P = Some Pending" and os: "openSpans ?w1 ?h = Some ?key"
        using f(5) True by simp_all
      note sw = settleResult_wrapped [OF rf pf, of st]
      show ?thesis
        apply (subst if_P, rule prof)
        apply (rule exI [of _ ?h])
        apply (rule exI [of _ ?R])
        apply (rule exI [of _ ?key])
        apply (insert f(1) rf pf os sw ret True)
        apply (auto simp: resultStateAt_def)
        done
    next
      case False
      show ?thesis
        apply (subst if_P, rule prof)
        apply (rule exI [of _ ?h])
        apply (rule exI [of _ ?R])
        apply (rule exI [of _ ?key])
        apply (insert f assms(1) ret False)
        apply (auto simp: resultStateAt_def split: fut_state.splits option.splits)
        done
    qed
  next
    case plain: False
    note f = rpc_plain [OF res ar plain, where qn = qn and stack = stack and t = t
                 and async = async]
    have ret: "ret = Suc (nextPtr w)"
      using f(4) assms(1) by (auto split: fut_state.splits option.splits)
    show ?thesis
      apply (subst if_not_P, rule plain)
      apply (insert f ret)
      apply (auto split: fut_state.splits option.splits)
      done
  qed
qed

lemma example_profiled_returns:
  "fst (rpcTorchscript ''B'' ''m.f'' intSchema [IVInt 1] 5 False
          (exampleWorld\<lparr>profilerOn := True\<rparr>)) = Inr 3"
  by (simp add: rpcTorchscript_def collaborator_defs profiler_defs future_defs example_defs
        Let_def)

lemma example_plain_returns:
  "fst (rpcTorchscript ''B'' ''m.f'' intSchema [IVInt 1] 5 False exampleWorld) = Inr 1"
  by (simp add: rpcTorchscript_def collaborator_defs profiler_defs future_defs example_defs
        Let_def)

lemma example_settles: "Completed (IVInt 7) [3] \<noteq> (Pending :: ivalue fut_state)"
  by simp

text \<open>
  The theorem at the call to worker \<open>B\<close> with the profiler on, which returns the
  wrapped future 3, and with the profiler off, which returns the typed future 1.
\<close>

theorem rpcTorchscript_returns_wrapped_future_when_profiling_witness:
  "fst (rpcTorchscript ''B'' ''m.f'' intSchema [IVInt 1] 5 False
          (exampleWorld\<lparr>profilerOn := True\<rparr>)) = Inr 3 \<and>
   fst (rpcTorchscript ''B'' ''m.f'' intSchema [IVInt 1] 5 False exampleWorld) = Inr 1 \<and>
   Completed (IVInt 7) [3] \<noteq> (Pending :: ivalue fut_state) \<and>
   (profilerEnabled (exampleWorld\<lparr>profilerOn := True\<rparr>) \<and>
    \<not> isCurrentKeySet (exampleWorld\<lparr>profilerOn := True\<rparr>)) \<and>
   \<not> (profilerEnabled exampleWorld \<and> \<not> isCurrentKeySet exampleWorld) \<and>
   (if profilerEnabled (exampleWorld\<lparr>profilerOn := True\<rparr>) \<and> \<not> isCurrentKeySet (exampleWorld\<lparr>profilerOn := True\<rparr>)
   then \<exists>h R key.
          take 1 (emitted (exampleWorld\<lparr>profilerOn := True\<rparr>) (snd (rpcTorchscript ''B'' ''m.f'' intSchema [IVInt 1] 5 False (exampleWorld\<lparr>profilerOn := True\<rparr>)))) = [EvRecordFunctionEnter key] \<and>
          EvCallEndCallbacksOnFut (RecordFunctionHandle h) R \<in> set (emitted (exampleWorld\<lparr>profilerOn := True\<rparr>) (snd (rpcTorchscript ''B'' ''m.f'' intSchema [IVInt 1] 5 False (exampleWorld\<lparr>profilerOn := True\<rparr>)))) \<and>
          (\<exists>F. EvAddCallback F (BridgeToJitFuture R F) \<in> set (emitted (exampleWorld\<lparr>profilerOn := True\<rparr>) (snd (rpcTorchscript ''B'' ''m.f'' intSchema [IVInt 1] 5 False (exampleWorld\<lparr>profilerOn := True\<rparr>))))) \<and>
          3 \<noteq> R \<and>
          (case resultStateAt (snd (rpcTorchscript ''B'' ''m.f'' intSchema [IVInt 1] 5 False (exampleWorld\<lparr>profilerOn := True\<rparr>))) R of
             None \<Rightarrow> False
           | Some Pending \<Rightarrow>
               openSpans (snd (rpcTorchscript ''B'' ''m.f'' intSchema [IVInt 1] 5 False (exampleWorld\<lparr>profilerOn := True\<rparr>))) h = Some key \<and>
               profiledFutures (snd (rpcTorchscript ''B'' ''m.f'' intSchema [IVInt 1] 5 False (exampleWorld\<lparr>profilerOn := True\<rparr>))) 3 = Some Pending \<and>
               fst (settleResult R (Completed (IVInt 7) [3]) (snd (rpcTorchscript ''B'' ''m.f'' intSchema [IVInt 1] 5 False (exampleWorld\<lparr>profilerOn := True\<rparr>)))) = Inr () \<and>
               openSpans (snd (settleResult R (Completed (IVInt 7) [3]) (snd (rpcTorchscript ''B'' ''m.f'' intSchema [IVInt 1] 5 False (exampleWorld\<lparr>profilerOn := True\<rparr>))))) h = None \<and>
               profiledFutures (snd (settleResult R (Completed (IVInt 7) [3]) (snd (rpcTorchscript ''B'' ''m.f'' intSchema [IVInt 1] 5 False (exampleWorld\<lparr>profilerOn := True\<rparr>))))) 3 = Some (Completed (IVInt 7) [3]) \<and>
               emitted (snd (rpcTorchscript ''B'' ''m.f'' intSchema [IVInt 1] 5 False (exampleWorld\<lparr>profilerOn := True\<rparr>))) (snd (settleResult R (Completed (IVInt 7) [3]) (snd (rpcTorchscript ''B'' ''m.f'' intSchema [IVInt 1] 5 False (exampleWorld\<lparr>profilerOn := True\<rparr>))))) =
                 [EvCloseSpan (RecordFunctionHandle h)]
           | Some s \<Rightarrow>
               openSpans (snd (rpcTorchscript ''B'' ''m.f'' intSchema [IVInt 1] 5 False (exampleWorld\<lparr>profilerOn := True\<rparr>))) h = None \<and>
               profiledFutures (snd (rpcTorchscript ''B'' ''m.f'' intSchema [IVInt 1] 5 False (exampleWorld\<lparr>profilerOn := True\<rparr>))) 3 = Some s \<and>
               EvCloseSpan (RecordFunctionHandle h) \<in> set (emitted (exampleWorld\<lparr>profilerOn := True\<rparr>) (snd (rpcTorchscript ''B'' ''m.f'' intSchema [IVInt 1] 5 False (exampleWorld\<lparr>profilerOn := True\<rparr>)))))
   else (\<exists>F. EvAddCallback F (BridgeToJitFuture 3 F) \<in> set (emitted (exampleWorld\<lparr>profilerOn := True\<rparr>) (snd (rpcTorchscript ''B'' ''m.f'' intSchema [IVInt 1] 5 False (exampleWorld\<lparr>profilerOn := True\<rparr>))))) \<and>
        map_option elementType (resultFutures (snd (rpcTorchscript ''B'' ''m.f'' intSchema [IVInt 1] 5 False (exampleWorld\<lparr>profilerOn := True\<rparr>))) 3) = Some (argType (returns intSchema ! 0)) \<and>
        openSpans (snd (rpcTorchscript ''B'' ''m.f'' intSchema [IVInt 1] 5 False (exampleWorld\<lparr>profilerOn := True\<rparr>))) = openSpans (exampleWorld\<lparr>profilerOn := True\<rparr>) \<and>
        profiledFutures (snd (rpcTorchscript ''B'' ''m.f'' intSchema [IVInt 1] 5 False (exampleWorld\<lparr>profilerOn := True\<rparr>))) = profiledFutures (exampleWorld\<lparr>profilerOn := True\<rparr>) \<and>
        (\<forall>k. EvRecordFunctionEnter k \<notin> set (emitted (exampleWorld\<lparr>profilerOn := True\<rparr>) (snd (rpcTorchscript ''B'' ''m.f'' intSchema [IVInt 1] 5 False (exampleWorld\<lparr>profilerOn := True\<rparr>)))))) \<and>
   (if profilerEnabled exampleWorld \<and> \<not> isCurrentKeySet exampleWorld
   then \<exists>h R key.
          take 1 (emitted exampleWorld (snd (rpcTorchscript ''B'' ''m.f'' intSchema [IVInt 1] 5 False exampleWorld))) = [EvRecordFunctionEnter key] \<and>
          EvCallEndCallbacksOnFut (RecordFunctionHandle h) R \<in> set (emitted exampleWorld (snd (rpcTorchscript ''B'' ''m.f'' intSchema [IVInt 1] 5 False exampleWorld))) \<and>
          (\<exists>F. EvAddCallback F (BridgeToJitFuture R F) \<in> set (emitted exampleWorld (snd (rpcTorchscript ''B'' ''m.f'' intSchema [IVInt 1] 5 False exampleWorld)))) \<and>
          1 \<noteq> R \<and>
          (case resultStateAt (snd (rpcTorchscript ''B'' ''m.f'' intSchema [IVInt 1] 5 False exampleWorld)) R of
             None \<Rightarrow> False
           | Some Pending \<Rightarrow>
               openSpans (snd (rpcTorchscript ''B'' ''m.f'' intSchema [IVInt 1] 5 False exampleWorld)) h = Some key \<and>
               profiledFutures (snd (rpcTorchscript ''B'' ''m.f'' intSchema [IVInt 1] 5 False exampleWorld)) 1 = Some Pending \<and>
               fst (settleResult R (Completed (IVInt 7) [3]) (snd (rpcTorchscript ''B'' ''m.f'' intSchema [IVInt 1] 5 False exampleWorld))) = Inr () \<and>
               openSpans (snd (settleResult R (Completed (IVInt 7) [3]) (snd (rpcTorchscript ''B'' ''m.f'' intSchema [IVInt 1] 5 False exampleWorld)))) h = None \<and>
               profiledFutures (snd (settleResult R (Completed (IVInt 7) [3]) (snd (rpcTorchscript ''B'' ''m.f'' intSchema [IVInt 1] 5 False exampleWorld)))) 1 = Some (Completed (IVInt 7) [3]) \<and>
               emitted (snd (rpcTorchscript ''B'' ''m.f'' intSchema [IVInt 1] 5 False exampleWorld)) (snd (settleResult R (Completed (IVInt 7) [3]) (snd (rpcTorchscript ''B'' ''m.f'' intSchema [IVInt 1] 5 False exampleWorld)))) =
                 [EvCloseSpan (RecordFunctionHandle h)]
           | Some s \<Rightarrow>
               openSpans (snd (rpcTorchscript ''B'' ''m.f'' intSchema [IVInt 1] 5 False exampleWorld)) h = None \<and>
               profiledFutures (snd (rpcTorchscript ''B'' ''m.f'' intSchema [IVInt 1] 5 False exampleWorld)) 1 = Some s \<and>
               EvCloseSpan (RecordFunctionHandle h) \<in> set (emitted exampleWorld (snd (rpcTorchscript ''B'' ''m.f'' intSchema [IVInt 1] 5 False exampleWorld))))
   else (\<exists>F. EvAddCallback F (BridgeToJitFuture 1 F) \<in> set (emitted exampleWorld (snd (rpcTorchscript ''B'' ''m.f'' intSchema [IVInt 1] 5 False exampleWorld)))) \<and>
        map_option elementType (resultFutures (snd (rpcTorchscript ''B'' ''m.f'' intSchema [IVInt 1] 5 False exampleWorld)) 1) = Some (argType (returns intSchema ! 0)) \<and>
        openSpans (snd (rpcTorchscript ''B'' ''m.f'' intSchema [IVInt 1] 5 False exampleWorld)) = openSpans exampleWorld \<and>
        profiledFutures (snd (rpcTorchscript ''B'' ''m.f'' intSchema [IVInt 1] 5 False exampleWorld)) = profiledFutures exampleWorld \<and>
        (\<forall>k. EvRecordFunctionEnter k \<notin> set (emitted exampleWorld (snd (rpcTorchscript ''B'' ''m.f'' intSchema [IVInt 1] 5 False exampleWorld)))))"
proof -
  have on: "profilerEnabled (exampleWorld\<lparr>profilerOn := True\<rparr>) \<and>
            \<not> isCurrentKeySet (exampleWorld\<lparr>profilerOn := True\<rparr>)"
    by (simp add: profiler_defs example_defs)
  have off: "\<not> (profilerEnabled exampleWorld \<and> \<not> isCurrentKeySet exampleWorld)"
    by (simp add: profiler_defs example_defs)
  show ?thesis
    by (intro conjI example_profiled_returns example_plain_returns example_settles on off
          rpcTorchscript_returns_wrapped_future_when_profiling
            [OF example_profiled_returns example_settles]
          rpcTorchscript_returns_wrapped_future_when_profiling
            [OF example_plain_returns example_settles])
qed

text \<open>
  C3, as stated, fails: the callbacks lock the weak pointer and use the result without
  testing it. The reference call to worker \<open>B\<close> registers the confirmation callback
  on future 1; run when the future is gone, the callback is not a no-op: it ends on
  the null pointer.
\<close>

theorem registered_callback_without_future_counterexample:
  "EvAddCallback 1 (ConfirmPendingUser 1 1)
     \<in> set (emitted exampleWorld
              (snd (remoteTorchscript ''B'' ''m.f'' intSchema [IVInt 1] 5 False exampleWorld))) \<and>
   runTransportCallback (ConfirmPendingUser 1 1)
     (destroyFuture 1
        (snd (remoteTorchscript ''B'' ''m.f'' intSchema [IVInt 1] 5 False exampleWorld))) =
   (Inl NullPointerDereference,
    destroyFuture 1
      (snd (remoteTorchscript ''B'' ''m.f'' intSchema [IVInt 1] 5 False exampleWorld)))"
proof -
  have "EvAddCallback 1 (ConfirmPendingUser 1 1)
     \<in> set (emitted exampleWorld
              (snd (remoteTorchscript ''B'' ''m.f'' intSchema [IVInt 1] 5 False exampleWorld)))"
    using remote_branch(2) [OF example_resolves_B example_arity example_B_remote,
            of "''m.f''" "[IVInt 1]" 5 False]
    by (simp add: example_defs)
  moreover have "runTransportCallback (ConfirmPendingUser 1 1) (destroyFuture 1 x) =
      (Inl NullPointerDereference, destroyFuture 1 x)" for x
    by (simp add: runTransportCallback_def destroyFuture_def)
  ultimately show ?thesis by simp
qed

text \<open>
  C3, amended. Every callback that either entry point registers on a transport future
  holds that future through a weak pointer only, and locks it when it runs without
  testing the result. Where the future is alive, the callback gets its pointer and runs
  its body on that future: the callback of the plain call passes the error of the future
  to the typed future, or completes the typed future with the decoded value and the data
  pointers of the future, and fails when the future is not completed; the callbacks of
  the reference call hand the future to \<^verbatim>\<open>confirmPendingUser\<close> and to
  \<^verbatim>\<open>finishCreatingOwnerRRef\<close>. Where the future has been destroyed, the callback
  is not a no-op: it dereferences the null pointer and does nothing else.
\<close>

theorem registered_callbacks_upgrade_unchecked:
  assumes "EvAddCallback p cb
             \<in> set (emitted w (snd (rpcTorchscript dst qn fs stack t async w))) \<or>
           EvAddCallback p cb
             \<in> set (emitted w (snd (remoteTorchscript dst qn fs stack t async w)))"
    and "transportFutures w' p = Some f"
  shows "weakHandle cb = p \<and>
         runTransportCallback cb w' =
           (case cb of
              BridgeToJitFuture futPtr wp \<Rightarrow>
                (case state f of
                   Failed e \<Rightarrow> setError futPtr e w'
                 | Pending \<Rightarrow> (Inl FutureNotCompleted, w')
                 | Completed m dataPtrs \<Rightarrow>
                     (case deserializeRespToIValue w' m of
                        Inl e \<Rightarrow> (Inl e, w')
                      | Inr v \<Rightarrow> markCompleted futPtr v dataPtrs w'))
            | ConfirmPendingUser wp fid \<Rightarrow> confirmPendingUser f fid w'
            | FinishCreatingOwnerRRef wp ownerRRefId \<Rightarrow>
                finishCreatingOwnerRRef f ownerRRefId w') \<and>
         fst (runTransportCallback cb w') \<noteq> Inl NullPointerDereference \<and>
         runTransportCallback cb (destroyFuture p w') =
           (Inl NullPointerDereference, destroyFuture p w')"
proof -
  have wh: "weakHandle cb = p"
    using assms(1) rpcTorchscript_callbacks remoteTorchscript_callbacks by blast
  from wh assms(2) have body: "runTransportCallback cb w' =
           (case cb of
              BridgeToJitFuture futPtr wp \<Rightarrow>
                (case state f of
                   Failed e \<Rightarrow> setError futPtr e w'
                 | Pending \<Rightarrow> (Inl FutureNotCompleted, w')
                 | Completed m dataPtrs \<Rightarrow>
                     (case deserializeRespToIValue w' m of
                        Inl e \<Rightarrow> (Inl e, w')
                      | Inr v \<Rightarrow> markCompleted futPtr v dataPtrs w'))
            | ConfirmPendingUser wp fid \<Rightarrow> confirmPendingUser f fid w'
            | FinishCreatingOwnerRRef wp ownerRRefId \<Rightarrow>
                finishCreatingOwnerRRef f ownerRRefId w')"
    by (cases cb) (auto simp: runTransportCallback_def)
  from wh assms(2) have alive: "fst (runTransportCallback cb w') \<noteq> Inl NullPointerDereference"
    by (intro runTransportCallback_alive [of w' cb f]) simp
  from wh have gone: "runTransportCallback cb (destroyFuture p w') =
      (Inl NullPointerDereference, destroyFuture p w')"
    using runTransportCallback_destroyed [of cb w'] by simp
  show ?thesis
    by (intro conjI wh body alive gone)
qed

text \<open>
  The theorem at the confirmation callback of the reference call to worker \<open>B\<close>, in
  the world where the transport has completed future 1 with \<open>ResponseMessage [7]\<close>:
  the callback is \<^verbatim>\<open>confirmPendingUser\<close> on that future, it returns, and the fork
  1 goes from pending to confirmed.
\<close>

theorem registered_callbacks_upgrade_unchecked_witness:
  "(EvAddCallback 1 (ConfirmPendingUser 1 1)
      \<in> set (emitted exampleWorld (snd (rpcTorchscript ''B'' ''m.f'' intSchema [IVInt 1] 5 False exampleWorld))) \<or>
    EvAddCallback 1 (ConfirmPendingUser 1 1)
      \<in> set (emitted exampleWorld (snd (remoteTorchscript ''B'' ''m.f'' intSchema [IVInt 1] 5 False exampleWorld)))) \<and>
   transportFutures ((snd (remoteTorchscript ''B'' ''m.f'' intSchema [IVInt 1] 5 False exampleWorld))\<lparr>transportFutures := (transportFutures (snd (remoteTorchscript ''B'' ''m.f'' intSchema [IVInt 1] 5 False exampleWorld)))(1 \<mapsto> \<lparr>state = Completed (ResponseMessage [7]) [], callbacks = []\<rparr>)\<rparr>) 1 = Some \<lparr>state = Completed (ResponseMessage [7]) [], callbacks = []\<rparr> \<and>
   weakHandle (ConfirmPendingUser 1 1) = 1 \<and>
   runTransportCallback (ConfirmPendingUser 1 1) ((snd (remoteTorchscript ''B'' ''m.f'' intSchema [IVInt 1] 5 False exampleWorld))\<lparr>transportFutures := (transportFutures (snd (remoteTorchscript ''B'' ''m.f'' intSchema [IVInt 1] 5 False exampleWorld)))(1 \<mapsto> \<lparr>state = Completed (ResponseMessage [7]) [], callbacks = []\<rparr>)\<rparr>) = confirmPendingUser \<lparr>state = Completed (ResponseMessage [7]) [], callbacks = []\<rparr> 1 ((snd (remoteTorchscript ''B'' ''m.f'' intSchema [IVInt 1] 5 False exampleWorld))\<lparr>transportFutures := (transportFutures (snd (remoteTorchscript ''B'' ''m.f'' intSchema [IVInt 1] 5 False exampleWorld)))(1 \<mapsto> \<lparr>state = Completed (ResponseMessage [7]) [], callbacks = []\<rparr>)\<rparr>) \<and>
   fst (runTransportCallback (ConfirmPendingUser 1 1) ((snd (remoteTorchscript ''B'' ''m.f'' intSchema [IVInt 1] 5 False exampleWorld))\<lparr>transportFutures := (transportFutures (snd (remoteTorchscript ''B'' ''m.f'' intSchema [IVInt 1] 5 False exampleWorld)))(1 \<mapsto> \<lparr>state = Completed (ResponseMessage [7]) [], callbacks = []\<rparr>)\<rparr>)) = Inr () \<and>
   pendingUsers ((snd (remoteTorchscript ''B'' ''m.f'' intSchema [IVInt 1] 5 False exampleWorld))\<lparr>transportFutures := (transportFutures (snd (remoteTorchscript ''B'' ''m.f'' intSchema [IVInt 1] 5 False exampleWorld)))(1 \<mapsto> \<lparr>state = Completed (ResponseMessage [7]) [], callbacks = []\<rparr>)\<rparr>) 1 = Some 0 \<and>
   pendingUsers (snd (runTransportCallback (ConfirmPendingUser 1 1) ((snd (remoteTorchscript ''B'' ''m.f'' intSchema [IVInt 1] 5 False exampleWorld))\<lparr>transportFutures := (transportFutures (snd (remoteTorchscript ''B'' ''m.f'' intSchema [IVInt 1] 5 False exampleWorld)))(1 \<mapsto> \<lparr>state = Completed (ResponseMessage [7]) [], callbacks = []\<rparr>)\<rparr>))) 1 = None \<and>
   1 \<in> confirmedUsers (snd (runTransportCallback (ConfirmPendingUser 1 1) ((snd (remoteTorchscript ''B'' ''m.f'' intSchema [IVInt 1] 5 False exampleWorld))\<lparr>transportFutures := (transportFutures (snd (remoteTorchscript ''B'' ''m.f'' intSchema [IVInt 1] 5 False exampleWorld)))(1 \<mapsto> \<lparr>state = Completed (ResponseMessage [7]) [], callbacks = []\<rparr>)\<rparr>))) \<and>
   fst (runTransportCallback (ConfirmPendingUser 1 1) ((snd (remoteTorchscript ''B'' ''m.f'' intSchema [IVInt 1] 5 False exampleWorld))\<lparr>transportFutures := (transportFutures (snd (remoteTorchscript ''B'' ''m.f'' intSchema [IVInt 1] 5 False exampleWorld)))(1 \<mapsto> \<lparr>state = Completed (ResponseMessage [7]) [], callbacks = []\<rparr>)\<rparr>)) \<noteq> Inl NullPointerDereference \<and>
   runTransportCallback (ConfirmPendingUser 1 1) (destroyFuture 1 ((snd (remoteTorchscript ''B'' ''m.f'' intSchema [IVInt 1] 5 False exampleWorld))\<lparr>transportFutures := (transportFutures (snd (remoteTorchscript ''B'' ''m.f'' intSchema [IVInt 1] 5 False exampleWorld)))(1 \<mapsto> \<lparr>state = Completed (ResponseMessage [7]) [], callbacks = []\<rparr>)\<rparr>)) =
     (Inl NullPointerDereference, destroyFuture 1 ((snd (remoteTorchscript ''B'' ''m.f'' intSchema [IVInt 1] 5 False exampleWorld))\<lparr>transportFutures := (transportFutures (snd (remoteTorchscript ''B'' ''m.f'' intSchema [IVInt 1] 5 False exampleWorld)))(1 \<mapsto> \<lparr>state = Completed (ResponseMessage [7]) [], callbacks = []\<rparr>)\<rparr>))"
proof -
  have reg: "EvAddCallback 1 (ConfirmPendingUser 1 1)
      \<in> set (emitted exampleWorld (snd (rpcTorchscript ''B'' ''m.f'' intSchema [IVInt 1] 5 False exampleWorld))) \<or>
    EvAddCallback 1 (ConfirmPendingUser 1 1)
      \<in> set (emitted exampleWorld (snd (remoteTorchscript ''B'' ''m.f'' intSchema [IVInt 1] 5 False exampleWorld)))"
    using remote_branch(2) [OF example_resolves_B example_arity example_B_remote,
            of "''m.f''" "[IVInt 1]" 5 False]
    by (simp add: example_defs)
  have alive: "transportFutures ((snd (remoteTorchscript ''B'' ''m.f'' intSchema [IVInt 1] 5 False exampleWorld))\<lparr>transportFutures := (transportFutures (snd (remoteTorchscript ''B'' ''m.f'' intSchema [IVInt 1] 5 False exampleWorld)))(1 \<mapsto> \<lparr>state = Completed (ResponseMessage [7]) [], callbacks = []\<rparr>)\<rparr>) 1 = Some \<lparr>state = Completed (ResponseMessage [7]) [], callbacks = []\<rparr>"
    by simp
  note inst = registered_callbacks_upgrade_unchecked [OF reg alive]
  have wh: "weakHandle (ConfirmPendingUser 1 1) = 1"
    by (rule inst [THEN conjunct1])
  have eq: "runTransportCallback (ConfirmPendingUser 1 1) ((snd (remoteTorchscript ''B'' ''m.f'' intSchema [IVInt 1] 5 False exampleWorld))\<lparr>transportFutures := (transportFutures (snd (remoteTorchscript ''B'' ''m.f'' intSchema [IVInt 1] 5 False exampleWorld)))(1 \<mapsto> \<lparr>state = Completed (ResponseMessage [7]) [], callbacks = []\<rparr>)\<rparr>) = confirmPendingUser \<lparr>state = Completed (ResponseMessage [7]) [], callbacks = []\<rparr> 1 ((snd (remoteTorchscript ''B'' ''m.f'' intSchema [IVInt 1] 5 False exampleWorld))\<lparr>transportFutures := (transportFutures (snd (remoteTorchscript ''B'' ''m.f'' intSchema [IVInt 1] 5 False exampleWorld)))(1 \<mapsto> \<lparr>state = Completed (ResponseMessage [7]) [], callbacks = []\<rparr>)\<rparr>)"
    using inst [THEN conjunct2, THEN conjunct1] by (simp only: transport_callback.case)
  have nn: "fst (runTransportCallback (ConfirmPendingUser 1 1) ((snd (remoteTorchscript ''B'' ''m.f'' intSchema [IVInt 1] 5 False exampleWorld))\<lparr>transportFutures := (transportFutures (snd (remoteTorchscript ''B'' ''m.f'' intSchema [IVInt 1] 5 False exampleWorld)))(1 \<mapsto> \<lparr>state = Completed (ResponseMessage [7]) [], callbacks = []\<rparr>)\<rparr>)) \<noteq> Inl NullPointerDereference"
    by (rule inst [THEN conjunct2, THEN conjunct2, THEN conjunct1])
  have de: "runTransportCallback (ConfirmPendingUser 1 1) (destroyFuture 1 ((snd (remoteTorchscript ''B'' ''m.f'' intSchema [IVInt 1] 5 False exampleWorld))\<lparr>transportFutures := (transportFutures (snd (remoteTorchscript ''B'' ''m.f'' intSchema [IVInt 1] 5 False exampleWorld)))(1 \<mapsto> \<lparr>state = Completed (ResponseMessage [7]) [], callbacks = []\<rparr>)\<rparr>)) =
     (Inl NullPointerDereference, destroyFuture 1 ((snd (remoteTorchscript ''B'' ''m.f'' intSchema [IVInt 1] 5 False exampleWorld))\<lparr>transportFutures := (transportFutures (snd (remoteTorchscript ''B'' ''m.f'' intSchema [IVInt 1] 5 False exampleWorld)))(1 \<mapsto> \<lparr>state = Completed (ResponseMessage [7]) [], callbacks = []\<rparr>)\<rparr>))"
    by (rule inst [THEN conjunct2, THEN conjunct2, THEN conjunct2])
  have pu: "pendingUsers ((snd (remoteTorchscript ''B'' ''m.f'' intSchema [IVInt 1] 5 False exampleWorld))\<lparr>transportFutures := (transportFutures (snd (remoteTorchscript ''B'' ''m.f'' intSchema [IVInt 1] 5 False exampleWorld)))(1 \<mapsto> \<lparr>state = Completed (ResponseMessage [7]) [], callbacks = []\<rparr>)\<rparr>) 1 = Some 0"
    using remote_branch_pending(2) [OF example_resolves_B example_arity example_B_remote,
            of "''m.f''" "[IVInt 1]" False 5]
    by (simp add: example_defs)
  have ok: "fst (runTransportCallback (ConfirmPendingUser 1 1) ((snd (remoteTorchscript ''B'' ''m.f'' intSchema [IVInt 1] 5 False exampleWorld))\<lparr>transportFutures := (transportFutures (snd (remoteTorchscript ''B'' ''m.f'' intSchema [IVInt 1] 5 False exampleWorld)))(1 \<mapsto> \<lparr>state = Completed (ResponseMessage [7]) [], callbacks = []\<rparr>)\<rparr>)) = Inr ()"
    unfolding eq by (simp add: confirmPendingUser_def Let_def)
  have rl: "pendingUsers (snd (runTransportCallback (ConfirmPendingUser 1 1) ((snd (remoteTorchscript ''B'' ''m.f'' intSchema [IVInt 1] 5 False exampleWorld))\<lparr>transportFutures := (transportFutures (snd (remoteTorchscript ''B'' ''m.f'' intSchema [IVInt 1] 5 False exampleWorld)))(1 \<mapsto> \<lparr>state = Completed (ResponseMessage [7]) [], callbacks = []\<rparr>)\<rparr>))) 1 = None"
    unfolding eq using pu by (simp add: confirmPendingUser_def logEvent_def Let_def domIff)
  have cf: "1 \<in> confirmedUsers (snd (runTransportCallback (ConfirmPendingUser 1 1) ((snd (remoteTorchscript ''B'' ''m.f'' intSchema [IVInt 1] 5 False exampleWorld))\<lparr>transportFutures := (transportFutures (snd (remoteTorchscript ''B'' ''m.f'' intSchema [IVInt 1] 5 False exampleWorld)))(1 \<mapsto> \<lparr>state = Completed (ResponseMessage [7]) [], callbacks = []\<rparr>)\<rparr>)))"
    unfolding eq using pu by (simp add: confirmPendingUser_def logEvent_def Let_def domIff)
  show ?thesis
    by (intro conjI reg alive wh eq ok pu rl cf nn de)
qed

end
